theory Spec2Isabelle
  imports Main
begin

section \<open>The corpus importer of cltk (\<open>cltk/corpus/utils/importer.py\<close>)\<close>

text \<open>
  The module is embedded as it is written.  Python exceptions are values of the
  datatype \<open>exn\<close>; a computation that logs, reads or changes the file system, or
  talks to git, is a function from a state to a result and a state, where the result
  is \<open>Inl e\<close> when the exception \<open>e\<close> escapes and \<open>Inr v\<close> when \<open>v\<close> is returned.

  The module stands on code that is not part of it: the corpus tables of the language
  packages, \<open>make_cltk_path\<close>, the logger, \<open>os\<close>, \<open>shutil\<close>, \<open>urljoin\<close> and the git
  library.  Pure string functions of \<open>os.path\<close> are written out in their POSIX form.
  Everything that depends on the machine (the file system, the network, the remote
  repository) is a parameter: the record \<open>os_env\<close> holds one function for each
  external operation the module calls, over an arbitrary type \<open>'w\<close> of worlds.
\<close>

subsection \<open>Exceptions\<close>

text \<open>
  One constructor for each exception class that a handler of the module names or that
  the module's own statements raise.  \<open>OSError\<close> carries \<open>errno\<close> (\<open>None\<close> when the
  attribute is not set) and stands for the class with all its subclasses.
  \<open>GitCommandError\<close> is the error of the git library for a failed git command.
  \<open>OtherError\<close> is an exception of any other class, with the class name and the text.
\<close>

datatype exn =
    CorpusImportError string
  | NameError string
  | KeyError string
  | AttributeError string
  | AssertionError
  | OSError "int option"
  | GitCommandError string
  | OtherError string string

fun is_CorpusImportError :: "exn \<Rightarrow> bool" where
  "is_CorpusImportError (CorpusImportError m) = True"
| "is_CorpusImportError e = False"

fun is_OSError :: "exn \<Rightarrow> bool" where
  "is_OSError (OSError n) = True"
| "is_OSError e = False"

fun is_NameError :: "exn \<Rightarrow> bool" where
  "is_NameError (NameError m) = True"
| "is_NameError e = False"

fun is_NameError_or_KeyError :: "exn \<Rightarrow> bool" where
  "is_NameError_or_KeyError (NameError m) = True"
| "is_NameError_or_KeyError (KeyError m) = True"
| "is_NameError_or_KeyError e = False"

text \<open>\<open>errno.ENOTDIR\<close> and the \<open>errno\<close> of an exception.\<close>

definition ENOTDIR :: int where
  "ENOTDIR = 20"

fun errno :: "exn \<Rightarrow> int option" where
  "errno (OSError n) = n"
| "errno e = None"

subsection \<open>Strings\<close>

text \<open>
  A string is the list of its code points, here below 256.  \<open>str_of_exn\<close> is \<open>str(e)\<close>:
  the message, and for a \<open>KeyError\<close> the \<open>repr\<close> of the key.
\<close>

definition quoted :: "string \<Rightarrow> string" where
  "quoted s = [CHR 0x27] @ s @ [CHR 0x27]"

definition dquoted :: "string \<Rightarrow> string" where
  "dquoted s = [CHR 0x22] @ s @ [CHR 0x22]"

fun str_of_exn :: "exn \<Rightarrow> string" where
  "str_of_exn (CorpusImportError m) = m"
| "str_of_exn (NameError m) = m"
| "str_of_exn (KeyError k) = quoted k"
| "str_of_exn (AttributeError m) = m"
| "str_of_exn AssertionError = []"
| "str_of_exn (OSError n) = []"
| "str_of_exn (GitCommandError m) = m"
| "str_of_exn (OtherError c m) = m"

text \<open>
  \<open>str.lower\<close> on code points below 256: the letters \<open>A\<close> to \<open>Z\<close> and the capital
  letters of Latin-1 (192 to 222 without the multiplication sign 215) move up by 32,
  every other code point stays.
\<close>

definition lower_char :: "char \<Rightarrow> char" where
  "lower_char c =
     (let n = (of_char c :: nat)
      in if (65 \<le> n \<and> n \<le> 90) \<or> (192 \<le> n \<and> n \<le> 222 \<and> n \<noteq> 215)
         then char_of (n + 32) else c)"

definition lower :: "string \<Rightarrow> string" where
  "lower s = map lower_char s"

text \<open>\<open>s.rstrip(chars)\<close>: drop from the right end every character that occurs in \<open>chars\<close>.\<close>

definition rstrip :: "string \<Rightarrow> string \<Rightarrow> string" where
  "rstrip s chars = rev (dropWhile (\<lambda>c. c \<in> set chars) (rev s))"

text \<open>
  \<open>os.pathsep\<close> separates the entries of a search path (\<open>PATH\<close>); \<open>os.sep\<close> separates
  the components of one path.  POSIX values.
\<close>

definition os_pathsep :: string where
  "os_pathsep = '':''"

definition os_sep :: string where
  "os_sep = ''/''"

text \<open>
  \<open>posixpath.join\<close>: a component that starts with the separator replaces what was
  joined so far; otherwise it is appended, after a separator unless the path so far is
  empty or ends with one.
\<close>

definition join_step :: "string \<Rightarrow> string \<Rightarrow> string" where
  "join_step path b =
     (if b \<noteq> [] \<and> hd b = CHR ''/'' then b
      else if path = [] \<or> last path = CHR ''/'' then path @ b
      else path @ ''/'' @ b)"

definition os_path_join :: "string \<Rightarrow> string list \<Rightarrow> string" where
  "os_path_join a p = foldl join_step a p"

text \<open>
  \<open>posixpath.split\<close>: the tail is what follows the last separator; the head is what
  precedes it, without its trailing separators unless it consists of separators only.
\<close>

definition os_path_split :: "string \<Rightarrow> string \<times> string" where
  "os_path_split p =
     (let tail = rev (takeWhile (\<lambda>c. c \<noteq> CHR ''/'') (rev p));
          head = take (length p - length tail) p
      in (if head \<noteq> [] \<and> \<not> list_all (\<lambda>c. c = CHR ''/'') head then rstrip head ''/'' else head,
          tail))"

subsection \<open>The corpus tables\<close>

text \<open>
  \<open>CHINESE_CORPORA\<close> to \<open>SANSKRIT_CORPORA\<close> are lists of dictionaries imported from the
  language packages.  The module reads three keys of a dictionary, \<open>'name'\<close>,
  \<open>'location'\<close> and \<open>'type'\<close>, which every corpus descriptor has; a descriptor is the
  record of the three values.  The eight tables are a parameter.
\<close>

record descriptor =
  name :: string
  location :: string
  type :: string

record corpora_tables =
  CHINESE_CORPORA :: "descriptor list"
  COPTIC_CORPORA :: "descriptor list"
  GREEK_CORPORA :: "descriptor list"
  LATIN_CORPORA :: "descriptor list"
  SANSKRIT_CORPORA :: "descriptor list"
  MULTILINGUAL_CORPORA :: "descriptor list"
  PALI_CORPORA :: "descriptor list"
  TIBETAN_CORPORA :: "descriptor list"

definition AVAILABLE_LANGUAGES :: "string list" where
  "AVAILABLE_LANGUAGES =
     [''chinese'', ''coptic'', ''greek'', ''latin'', ''multilingual'', ''pali'', ''tibetan'',
      ''sanskrit'']"

text \<open>The dictionary literal, as the list of its items.\<close>

definition LANGUAGE_CORPORA :: "corpora_tables \<Rightarrow> (string \<times> descriptor list) list" where
  "LANGUAGE_CORPORA t =
     [(''chinese'', CHINESE_CORPORA t),
      (''coptic'', COPTIC_CORPORA t),
      (''greek'', GREEK_CORPORA t),
      (''latin'', LATIN_CORPORA t),
      (''multilingual'', MULTILINGUAL_CORPORA t),
      (''pali'', PALI_CORPORA t),
      (''tibetan'', TIBETAN_CORPORA t),
      (''sanskrit'', SANSKRIT_CORPORA t)]"

subsection \<open>State, results, \<open>try\<close> and \<open>except\<close>\<close>

text \<open>
  The state: the world outside the process, the lines handed to the logger, and the
  external operations called so far, in order (reads included).
\<close>

datatype level = INFO | ERROR

datatype call =
    IsFile string
  | IsDir string
  | Makedirs string
  | Rmtree string
  | Copytree string string
  | Copy string string
  | CloneFrom string string nat
  | RepoOpen string
  | Pull string

record 'w state =
  world :: 'w
  logged :: "(level \<times> string) list"
  calls :: "call list"

type_synonym ('w, 'a) action = "'w state \<Rightarrow> (exn + 'a) \<times> 'w state"

definition return :: "'a \<Rightarrow> ('w, 'a) action" where
  "return v = (\<lambda>s. (Inr v, s))"

definition raise :: "exn \<Rightarrow> ('w, 'a) action" where
  "raise e = (\<lambda>s. (Inl e, s))"

text \<open>\<open>bind m f\<close>: run \<open>m\<close>, then \<open>f\<close> on what it returned; an exception of \<open>m\<close> escapes.\<close>

definition bind :: "('w, 'a) action \<Rightarrow> ('a \<Rightarrow> ('w, 'b) action) \<Rightarrow> ('w, 'b) action" where
  "bind m f = (\<lambda>s. case m s of (Inl e, s') \<Rightarrow> (Inl e, s') | (Inr v, s') \<Rightarrow> f v s')"

text \<open>
  \<open>try_except m handles h\<close>: \<open>try: m  except C as e: h e\<close>, where \<open>handles\<close> tells the
  instances of the classes \<open>C\<close>.  Any other exception escapes.
\<close>

definition try_except ::
  "('w, 'a) action \<Rightarrow> (exn \<Rightarrow> bool) \<Rightarrow> (exn \<Rightarrow> ('w, 'a) action) \<Rightarrow> ('w, 'a) action" where
  "try_except m handles h =
     (\<lambda>s. case m s of
             (Inl e, s') \<Rightarrow> if handles e then h e s' else (Inl e, s')
           | (Inr v, s') \<Rightarrow> (Inr v, s'))"

definition logger_info :: "string \<Rightarrow> ('w, unit) action" where
  "logger_info msg = (\<lambda>s. (Inr (), s\<lparr>logged := logged s @ [(INFO, msg)]\<rparr>))"

definition logger_error :: "string \<Rightarrow> ('w, unit) action" where
  "logger_error msg = (\<lambda>s. (Inr (), s\<lparr>logged := logged s @ [(ERROR, msg)]\<rparr>))"

definition py_assert :: "bool \<Rightarrow> ('w, unit) action" where
  "py_assert b = (if b then return () else raise AssertionError)"

text \<open>\<open>d[k]\<close> on a dictionary given by its items.\<close>

definition subscript :: "(string \<times> 'a) list \<Rightarrow> string \<Rightarrow> ('w, 'a) action" where
  "subscript d k = (case map_of d k of None \<Rightarrow> raise (KeyError k) | Some v \<Rightarrow> return v)"

subsection \<open>The operating system and git\<close>

text \<open>
  A \<open>Repo\<close> object as the module uses it: its working directory, its \<open>bare\<close> flag, and
  whether a remote called \<open>origin\<close> is configured (\<open>repo.remotes.origin\<close>).
\<close>

record repo =
  working_dir :: string
  bare :: bool
  has_origin :: bool

text \<open>
  The external operations.  A read takes the world; an operation that may change the
  world returns the exception it raised, if any, and the world it left behind.
  \<open>make_cltk_path\<close> joins its arguments below the data directory; \<open>clone_from\<close> takes
  the URL, the target directory and the \<open>depth\<close>; \<open>pull\<close> is the pull from the remote
  \<open>origin\<close> of a repository.  The \<open>ProgressPrinter\<close> handed to \<open>clone_from\<close> writes
  a line to the standard output and touches nothing else; the standard output is not
  part of the state.
\<close>

record 'w os_env =
  make_cltk_path :: "string list \<Rightarrow> string"
  urljoin :: "string \<Rightarrow> string \<Rightarrow> string"
  isfile :: "'w \<Rightarrow> string \<Rightarrow> bool"
  isdir :: "'w \<Rightarrow> string \<Rightarrow> bool"
  makedirs :: "string \<Rightarrow> 'w \<Rightarrow> exn option \<times> 'w"
  rmtree :: "string \<Rightarrow> 'w \<Rightarrow> exn option \<times> 'w"
  copytree :: "string \<Rightarrow> string \<Rightarrow> 'w \<Rightarrow> exn option \<times> 'w"
  copy :: "string \<Rightarrow> string \<Rightarrow> 'w \<Rightarrow> exn option \<times> 'w"
  clone_from :: "string \<Rightarrow> string \<Rightarrow> nat \<Rightarrow> 'w \<Rightarrow> exn option \<times> 'w"
  Repo :: "string \<Rightarrow> 'w \<Rightarrow> exn + repo"
  pull :: "repo \<Rightarrow> 'w \<Rightarrow> exn option \<times> 'w"

text \<open>Calling a read or an operation: the call is recorded, then the outcome taken.\<close>

definition query :: "call \<Rightarrow> ('w \<Rightarrow> 'a) \<Rightarrow> ('w, 'a) action" where
  "query c f = (\<lambda>s. (Inr (f (world s)), s\<lparr>calls := calls s @ [c]\<rparr>))"

definition perform :: "call \<Rightarrow> ('w \<Rightarrow> exn option \<times> 'w) \<Rightarrow> ('w, unit) action" where
  "perform c f =
     (\<lambda>s. case f (world s) of
             (None, w) \<Rightarrow> (Inr (), s\<lparr>world := w, calls := calls s @ [c]\<rparr>)
           | (Some e, w) \<Rightarrow> (Inl e, s\<lparr>world := w, calls := calls s @ [c]\<rparr>))"

definition os_path_isfile :: "'w os_env \<Rightarrow> string \<Rightarrow> ('w, bool) action" where
  "os_path_isfile env p = query (IsFile p) (\<lambda>w. isfile env w p)"

definition os_path_isdir :: "'w os_env \<Rightarrow> string \<Rightarrow> ('w, bool) action" where
  "os_path_isdir env p = query (IsDir p) (\<lambda>w. isdir env w p)"

definition os_makedirs :: "'w os_env \<Rightarrow> string \<Rightarrow> ('w, unit) action" where
  "os_makedirs env p = perform (Makedirs p) (makedirs env p)"

definition shutil_rmtree :: "'w os_env \<Rightarrow> string \<Rightarrow> ('w, unit) action" where
  "shutil_rmtree env p = perform (Rmtree p) (rmtree env p)"

definition shutil_copytree :: "'w os_env \<Rightarrow> string \<Rightarrow> string \<Rightarrow> ('w, unit) action" where
  "shutil_copytree env src dst = perform (Copytree src dst) (copytree env src dst)"

definition shutil_copy :: "'w os_env \<Rightarrow> string \<Rightarrow> string \<Rightarrow> ('w, unit) action" where
  "shutil_copy env src dst = perform (Copy src dst) (copy env src dst)"

definition Repo_clone_from :: "'w os_env \<Rightarrow> string \<Rightarrow> string \<Rightarrow> nat \<Rightarrow> ('w, unit) action" where
  "Repo_clone_from env url to_path depth =
     perform (CloneFrom url to_path depth) (clone_from env url to_path depth)"

definition Repo_open :: "'w os_env \<Rightarrow> string \<Rightarrow> ('w, repo) action" where
  "Repo_open env p =
     (\<lambda>s. (Repo env p (world s), s\<lparr>calls := calls s @ [RepoOpen p]\<rparr>))"

definition remotes_origin :: "repo \<Rightarrow> ('w, repo) action" where
  "remotes_origin r =
     (if has_origin r then return r
      else raise (AttributeError ''origin''))"

definition origin_pull :: "'w os_env \<Rightarrow> repo \<Rightarrow> ('w, unit) action" where
  "origin_pull env r = perform (Pull (working_dir r)) (pull env r)"

subsection \<open>\<open>CorpusImporter\<close>\<close>

record importer =
  language :: string

text \<open>\<open>_setup_language_variables\<close>\<close>

definition setup_language_variables :: "importer \<Rightarrow> exn + unit" where
  "setup_language_variables self =
     (if language self \<notin> set AVAILABLE_LANGUAGES
      then Inl (CorpusImportError
                 (''Corpora not available for the '' @ dquoted (language self) @ '' language.''))
      else Inr ())"

text \<open>\<open>__init__\<close>: the object exists for the caller only if no exception escapes.\<close>

definition CorpusImporter :: "string \<Rightarrow> exn + importer" where
  "CorpusImporter lang =
     (let self = \<lparr>language = lower lang\<rparr>
      in case setup_language_variables self of
           Inl e \<Rightarrow> Inl e
         | Inr u \<Rightarrow> Inr self)"

text \<open>\<open>list_corpora\<close>\<close>

definition list_corpora :: "corpora_tables \<Rightarrow> importer \<Rightarrow> ('w, string list) action" where
  "list_corpora t self =
     try_except
       (bind (subscript (LANGUAGE_CORPORA t) (language self)) (\<lambda>corpora.
          return (map name corpora)))
       is_NameError_or_KeyError
       (\<lambda>error.
          let msg = ''Corpus not available for language '' @ dquoted (language self) @ '': ''
                    @ str_of_exn error
          in bind (logger_error msg) (\<lambda>u. raise (CorpusImportError msg)))"

text \<open>\<open>_copy_dir_recursive\<close>\<close>

definition copy_dir_recursive :: "'w os_env \<Rightarrow> string \<Rightarrow> string \<Rightarrow> ('w, unit) action" where
  "copy_dir_recursive env src dst =
     try_except
       (bind (shutil_copytree env src dst) (\<lambda>u.
          logger_info (''Files copied from '' @ src @ '' to '' @ dst)))
       is_OSError
       (\<lambda>exc.
          if errno exc = Some ENOTDIR
          then bind (shutil_copy env src dst) (\<lambda>u.
                 logger_info (''Files copied from '' @ src @ '' to '' @ dst))
          else raise exc)"

text \<open>The loop of \<open>_get_corpus_properties\<close>, with the two statements after it.\<close>

fun find_corpus :: "importer \<Rightarrow> string \<Rightarrow> descriptor list \<Rightarrow> ('w, descriptor) action" where
  "find_corpus self corpus_name [] =
     (let msg = ''Corpus '' @ dquoted corpus_name @ '' not available for the ''
                @ dquoted (language self) @ '' language.''
      in bind (logger_error msg) (\<lambda>u. raise (CorpusImportError msg)))"
| "find_corpus self corpus_name (corpus_properties # corpora) =
     (if name corpus_properties = corpus_name then return corpus_properties
      else find_corpus self corpus_name corpora)"

text \<open>\<open>_get_corpus_properties\<close>\<close>

definition get_corpus_properties ::
  "corpora_tables \<Rightarrow> importer \<Rightarrow> string \<Rightarrow> ('w, descriptor) action" where
  "get_corpus_properties t self corpus_name =
     bind
       (try_except
          (subscript (LANGUAGE_CORPORA t) (language self))
          is_NameError
          (\<lambda>name_error.
             let msg = ''Corpus not available for language '' @ dquoted (language self) @ '': ''
                       @ str_of_exn name_error
             in bind (logger_error msg) (\<lambda>u. raise (CorpusImportError msg))))
       (\<lambda>corpora. find_corpus self corpus_name corpora)"

text \<open>\<open>'{}'.format(local_path)\<close> for an argument that may be \<open>None\<close>.\<close>

definition format_opt :: "string option \<Rightarrow> string" where
  "format_opt p = (case p of None \<Rightarrow> ''None'' | Some x \<Rightarrow> x)"

text \<open>\<open>local_path.rstrip(os.pathsep)\<close>: \<open>None\<close> has no method \<open>rstrip\<close>.\<close>

definition rstrip_opt :: "string option \<Rightarrow> string \<Rightarrow> ('w, string) action" where
  "rstrip_opt p chars =
     (case p of
        None \<Rightarrow> raise (AttributeError
                 (quoted ''NoneType'' @ '' object has no attribute '' @ quoted ''rstrip''))
      | Some x \<Rightarrow> return (rstrip x chars))"

text \<open>\<open>import_corpus\<close>\<close>

definition import_corpus ::
  "'w os_env \<Rightarrow> corpora_tables \<Rightarrow> importer \<Rightarrow> string \<Rightarrow> string option \<Rightarrow> ('w, unit) action" where
  "import_corpus env t self corpus_name local_path =
     bind (get_corpus_properties t self corpus_name) (\<lambda>corpus_properties.
     let location = location corpus_properties;
         corpus_type = type corpus_properties
     in
     if location = ''remote'' then
       (let git_uri = urljoin env ''https://github.com/cltk/'' (corpus_name @ ''.git'');
            type_dir = make_cltk_path env [language self, corpus_type];
            target_dir = os_path_join type_dir [corpus_name];
            target_file = os_path_join type_dir [corpus_name, ''README.md'']
        in
        bind (os_path_isfile env target_file) (\<lambda>present.
        if \<not> present then
          bind (os_path_isdir env type_dir) (\<lambda>d.
          bind (if \<not> d then os_makedirs env type_dir else return ()) (\<lambda>u.
          try_except
            (bind (logger_info (''Cloning '' @ quoted corpus_name @ '' from '' @ quoted git_uri))
               (\<lambda>u. Repo_clone_from env git_uri target_dir 1))
            is_CorpusImportError
            (\<lambda>corpus_imp_err.
               logger_error (''Git clone of '' @ quoted git_uri @ '' failed: ''
                             @ quoted (str_of_exn corpus_imp_err)))))
        else
          try_except
            (bind (Repo_open env target_dir) (\<lambda>repo.
             bind (py_assert (\<not> bare repo)) (\<lambda>u.
             bind (remotes_origin repo) (\<lambda>git_origin.
             bind (logger_info (''Pulling latest '' @ quoted corpus_name @ '' from ''
                                @ quoted git_uri @ ''.'')) (\<lambda>u.
             origin_pull env git_origin)))))
            is_CorpusImportError
            (\<lambda>corpus_imp_err.
               logger_error (''Git pull of '' @ quoted git_uri @ '' failed: ''
                             @ quoted (str_of_exn corpus_imp_err)))))
     else if location = ''local'' then
       bind (logger_info (''Importing from local path: '' @ quoted (format_opt local_path)))
         (\<lambda>u.
       if corpus_name \<in> set [''phi5'', ''phi7'', ''tlg''] then
         bind (rstrip_opt local_path os_pathsep) (\<lambda>local_path.
         bind (if corpus_name = ''phi5''
               then (if snd (os_path_split local_path) \<noteq> ''PHI5''
                     then logger_info (''Directory must be named '' @ quoted ''PHI5'' @ ''.'')
                     else return ())
               else return ()) (\<lambda>u.
         bind (if corpus_name = ''phi7''
               then (if snd (os_path_split local_path) \<noteq> ''PHI7''
                     then logger_info (''Directory must be named '' @ quoted ''PHI7'' @ ''.'')
                     else return ())
               else return ()) (\<lambda>u.
         bind (if corpus_name = ''tlg''
               then (if snd (os_path_split local_path) \<noteq> ''TLG_E''
                     then logger_info (''Directory must be named '' @ quoted ''TLG_E'' @ ''.'')
                     else return ())
               else return ()) (\<lambda>u.
         let originals_dir = make_cltk_path env [''originals''] in
         bind (os_path_isdir env originals_dir) (\<lambda>d.
         bind (if \<not> d
               then bind (os_makedirs env originals_dir) (\<lambda>u.
                      logger_info (''Wrote directory at '' @ quoted originals_dir @ ''.''))
               else return ()) (\<lambda>u.
         let tlg_originals_dir = make_cltk_path env [''originals'', corpus_name] in
         bind (os_path_isdir env tlg_originals_dir) (\<lambda>d.
         bind (if d
               then bind (shutil_rmtree env tlg_originals_dir) (\<lambda>u.
                      logger_info (''Removed directory at '' @ quoted tlg_originals_dir @ ''.''))
               else return ()) (\<lambda>u.
         bind (os_path_isdir env tlg_originals_dir) (\<lambda>d.
         if \<not> d then copy_dir_recursive env local_path tlg_originals_dir
         else return ())))))))))
       else return ())
     else return ())"

subsection \<open>A simulated machine\<close>

text \<open>
  One concrete environment, on which the module can be run inside the logic.  A world is
  a table from paths to nodes, a file with its content or a directory with its listing,
  and a flag telling whether the remote host can be reached.  A clone needs the host and
  a free target path and leaves a working copy with a \<open>README.md\<close>; a pull needs the
  host.  The data directory is \<open>/home/u/cltk_data\<close>.  The greek and latin tables hold the
  model corpora that the package's tests import, two of the legacy corpora, and one more
  local corpus.
\<close>

datatype node = File string | Dir "string list"

record sim_world =
  nodes :: "(string \<times> node) list"
  online :: bool

definition sim_isfile :: "sim_world \<Rightarrow> string \<Rightarrow> bool" where
  "sim_isfile w p = (case map_of (nodes w) p of Some (File c) \<Rightarrow> True | _ \<Rightarrow> False)"

definition sim_isdir :: "sim_world \<Rightarrow> string \<Rightarrow> bool" where
  "sim_isdir w p = (case map_of (nodes w) p of Some (Dir l) \<Rightarrow> True | _ \<Rightarrow> False)"

definition sim_makedirs :: "string \<Rightarrow> sim_world \<Rightarrow> exn option \<times> sim_world" where
  "sim_makedirs p w =
     (case map_of (nodes w) p of
        None \<Rightarrow> (None, w\<lparr>nodes := (p, Dir []) # nodes w\<rparr>)
      | Some n \<Rightarrow> (Some (OSError (Some 17)), w))"

definition sim_rmtree :: "string \<Rightarrow> sim_world \<Rightarrow> exn option \<times> sim_world" where
  "sim_rmtree p w =
     (case map_of (nodes w) p of
        None \<Rightarrow> (Some (OSError (Some 2)), w)
      | Some (File c) \<Rightarrow> (Some (OSError (Some 20)), w)
      | Some (Dir l) \<Rightarrow> (None, w\<lparr>nodes := filter (\<lambda>kv. fst kv \<noteq> p) (nodes w)\<rparr>))"

definition sim_copytree :: "string \<Rightarrow> string \<Rightarrow> sim_world \<Rightarrow> exn option \<times> sim_world" where
  "sim_copytree src dst w =
     (case map_of (nodes w) src of
        None \<Rightarrow> (Some (OSError (Some 2)), w)
      | Some (File c) \<Rightarrow> (Some (OSError (Some 20)), w)
      | Some (Dir l) \<Rightarrow>
          (case map_of (nodes w) dst of
             None \<Rightarrow> (None, w\<lparr>nodes := (dst, Dir l) # nodes w\<rparr>)
           | Some n \<Rightarrow> (Some (OSError (Some 17)), w)))"

definition sim_copy :: "string \<Rightarrow> string \<Rightarrow> sim_world \<Rightarrow> exn option \<times> sim_world" where
  "sim_copy src dst w =
     (case map_of (nodes w) src of
        None \<Rightarrow> (Some (OSError (Some 2)), w)
      | Some (Dir l) \<Rightarrow> (Some (OSError (Some 21)), w)
      | Some (File c) \<Rightarrow>
          (case map_of (nodes w) dst of
             Some (Dir l) \<Rightarrow>
               (None, w\<lparr>nodes := (os_path_join dst [snd (os_path_split src)], File c) # nodes w\<rparr>)
           | _ \<Rightarrow> (None, w\<lparr>nodes := (dst, File c) # nodes w\<rparr>)))"

definition sim_clone_from :: "string \<Rightarrow> string \<Rightarrow> nat \<Rightarrow> sim_world \<Rightarrow> exn option \<times> sim_world" where
  "sim_clone_from url to_path depth w =
     (if online w \<and> map_of (nodes w) to_path = None
      then (None, w\<lparr>nodes := (to_path, Dir [''.git'', ''README.md''])
                              # (os_path_join to_path [''README.md''], File url) # nodes w\<rparr>)
      else (Some (GitCommandError ''git clone''), w))"

definition sim_Repo :: "string \<Rightarrow> sim_world \<Rightarrow> exn + repo" where
  "sim_Repo p w =
     (case map_of (nodes w) p of
        Some (Dir l) \<Rightarrow>
          (if ''.git'' \<in> set l then Inr \<lparr>working_dir = p, bare = False, has_origin = True\<rparr>
           else Inl (OtherError ''InvalidGitRepositoryError'' p))
      | _ \<Rightarrow> Inl (OtherError ''NoSuchPathError'' p))"

definition sim_pull :: "repo \<Rightarrow> sim_world \<Rightarrow> exn option \<times> sim_world" where
  "sim_pull r w = (if online w then (None, w) else (Some (GitCommandError ''git pull''), w))"

definition sim_env :: "sim_world os_env" where
  "sim_env =
     \<lparr>make_cltk_path = os_path_join ''/home/u/cltk_data'',
      urljoin = (\<lambda>base url. base @ url),
      isfile = sim_isfile, isdir = sim_isdir, makedirs = sim_makedirs, rmtree = sim_rmtree,
      copytree = sim_copytree, copy = sim_copy, clone_from = sim_clone_from, Repo = sim_Repo,
      pull = sim_pull\<rparr>"

definition sim_tables :: corpora_tables where
  "sim_tables =
     \<lparr>CHINESE_CORPORA = [], COPTIC_CORPORA = [],
      GREEK_CORPORA = [\<lparr>name = ''greek_models_cltk'', location = ''remote'', type = ''model''\<rparr>,
                       \<lparr>name = ''tlg'', location = ''local'', type = ''text''\<rparr>,
                       \<lparr>name = ''greek_proper_names'', location = ''local'', type = ''text''\<rparr>],
      LATIN_CORPORA = [\<lparr>name = ''latin_models_cltk'', location = ''remote'', type = ''model''\<rparr>,
                       \<lparr>name = ''phi5'', location = ''local'', type = ''text''\<rparr>],
      SANSKRIT_CORPORA = [], MULTILINGUAL_CORPORA = [], PALI_CORPORA = [], TIBETAN_CORPORA = []\<rparr>"

text \<open>A state with nothing logged and nothing called yet.\<close>

definition start :: "bool \<Rightarrow> (string \<times> node) list \<Rightarrow> sim_world state" where
  "start up ns = \<lparr>world = \<lparr>nodes = ns, online = up\<rparr>, logged = [], calls = []\<rparr>"

section \<open>Properties\<close>

subsection \<open>Stepping through an action\<close>

lemmas action_defs = return_def raise_def bind_def try_except_def logger_info_def logger_error_def
  py_assert_def subscript_def query_def perform_def os_path_isfile_def os_path_isdir_def
  os_makedirs_def shutil_rmtree_def shutil_copytree_def shutil_copy_def Repo_clone_from_def
  Repo_open_def remotes_origin_def origin_pull_def

lemmas sim_defs = sim_env_def sim_isfile_def sim_isdir_def sim_makedirs_def sim_rmtree_def
  sim_copytree_def sim_copy_def sim_clone_from_def sim_Repo_def sim_pull_def sim_tables_def start_def

lemma bind_Inr: "m s = (Inr v, s') \<Longrightarrow> bind m f s = f v s'"
  by (simp add: bind_def)

lemma bind_Inl: "m s = (Inl e, s') \<Longrightarrow> bind m f s = (Inl e, s')"
  by (simp add: bind_def)

lemma bind_return: "bind (return v) f s = f v s"
  by (simp add: bind_def return_def)

lemma bind_return_eq: "bind (return v) f = f v"
  by (rule ext) (simp add: bind_def return_def)

lemma bind_logger_info: "bind (logger_info m) f s = f () (s\<lparr>logged := logged s @ [(INFO, m)]\<rparr>)"
  by (simp add: bind_def logger_info_def)

subsection \<open>The constructor and \<open>list_corpora\<close>\<close>

lemma map_of_LANGUAGE_CORPORA:
  "l \<in> set AVAILABLE_LANGUAGES \<Longrightarrow> \<exists>corpora. map_of (LANGUAGE_CORPORA t) l = Some corpora"
  by (auto simp: AVAILABLE_LANGUAGES_def LANGUAGE_CORPORA_def)

lemma CorpusImporter_Inr:
  "CorpusImporter lang = Inr self \<Longrightarrow>
   language self = lower lang \<and> language self \<in> set AVAILABLE_LANGUAGES"
  by (auto simp: CorpusImporter_def setup_language_variables_def Let_def split: if_splits)

lemma lower_GrEEk: "lower ''GrEEk'' = ''greek''"
  by code_simp

lemma lower_GREEK: "lower ''GREEK'' = ''greek''"
  by code_simp

lemma lower_Klingon: "lower ''Klingon'' = ''klingon''"
  by code_simp

lemma CorpusImporter_greek: "CorpusImporter ''greek'' = Inr \<lparr>language = ''greek''\<rparr>"
  by code_simp

text \<open>
  Claim C8.  The constructor lowers the language and then validates it: it raises
  \<open>CorpusImportError\<close> exactly when the lowered language is none of the eight supported
  ones, and otherwise returns the importer that stores the lowered language.  Hence two
  strings with the same lowered form, which is what differing only in case means, are
  treated alike.
\<close>

theorem CorpusImporter_lowercase_validation:
  "CorpusImporter lang =
     (if lower lang \<in> {''chinese'', ''coptic'', ''greek'', ''latin'', ''multilingual'', ''pali'',
                        ''tibetan'', ''sanskrit''}
      then Inr \<lparr>language = lower lang\<rparr>
      else Inl (CorpusImportError
                 (''Corpora not available for the '' @ dquoted (lower lang) @ '' language.'')))
   \<and> (\<forall>lang'. lower lang' = lower lang \<longrightarrow> CorpusImporter lang' = CorpusImporter lang)"
  by (simp add: CorpusImporter_def setup_language_variables_def AVAILABLE_LANGUAGES_def Let_def)

theorem CorpusImporter_lowercase_validation_witness:
  "lower ''GREEK'' = lower ''GrEEk''
   \<and> CorpusImporter ''GrEEk'' = Inr \<lparr>language = ''greek''\<rparr>
   \<and> CorpusImporter ''GREEK'' = CorpusImporter ''GrEEk''
   \<and> CorpusImporter ''Klingon''
       = Inl (CorpusImportError
               (''Corpora not available for the '' @ dquoted ''klingon'' @ '' language.''))"
  using CorpusImporter_lowercase_validation [of "''GrEEk''"]
    CorpusImporter_lowercase_validation [of "''Klingon''"]
    lower_GrEEk lower_GREEK lower_Klingon
  by simp

text \<open>
  Claim C10.  For an importer that the constructor returned, \<open>list_corpora\<close> does not
  raise: every supported language is a key of \<open>LANGUAGE_CORPORA\<close>, so the subscript
  finds the table of the importer's language, the handler for the missing key is not
  entered, and the result is the list of the names of that table, in its order.  Nothing
  is logged and nothing is called.
\<close>

theorem list_corpora_never_raises:
  assumes "CorpusImporter lang = Inr self"
  shows "set AVAILABLE_LANGUAGES \<subseteq> fst ` set (LANGUAGE_CORPORA t)
       \<and> (\<exists>corpora. map_of (LANGUAGE_CORPORA t) (language self) = Some corpora
             \<and> list_corpora t self s = (Inr (map name corpora), s))"
proof -
  have "language self \<in> set AVAILABLE_LANGUAGES"
    using CorpusImporter_Inr [OF assms] by blast
  then obtain corpora where c: "map_of (LANGUAGE_CORPORA t) (language self) = Some corpora"
    using map_of_LANGUAGE_CORPORA by blast
  have "list_corpora t self s = (Inr (map name corpora), s)"
    by (simp add: list_corpora_def try_except_def bind_def subscript_def return_def c)
  moreover have "set AVAILABLE_LANGUAGES \<subseteq> fst ` set (LANGUAGE_CORPORA t)"
    by (simp add: AVAILABLE_LANGUAGES_def LANGUAGE_CORPORA_def)
  ultimately show ?thesis using c by blast
qed

theorem list_corpora_never_raises_witness:
  "CorpusImporter ''greek'' = Inr \<lparr>language = ''greek''\<rparr>
   \<and> list_corpora sim_tables \<lparr>language = ''greek''\<rparr> (start True [])
       = (Inr [''greek_models_cltk'', ''tlg'', ''greek_proper_names''], start True [])"
  using list_corpora_never_raises [OF CorpusImporter_greek, of sim_tables "start True []"]
    CorpusImporter_greek
  by (simp add: LANGUAGE_CORPORA_def sim_tables_def)

subsection \<open>Looking a corpus up\<close>

lemma find_corpus_found:
  "find (\<lambda>x. name x = cn) corpora = Some d \<Longrightarrow> find_corpus self cn corpora s = (Inr d, s)"
  by (induction corpora) (auto simp: return_def split: if_splits)

lemma find_corpus_none:
  "\<forall>d\<in>set corpora. name d \<noteq> cn \<Longrightarrow>
   \<exists>msg. find_corpus self cn corpora s =
     (Inl (CorpusImportError msg), s\<lparr>logged := logged s @ [(ERROR, msg)]\<rparr>)"
  by (induction corpora) (simp_all add: bind_def logger_error_def raise_def Let_def)

lemma find_first:
  "\<forall>x\<in>set pre. name x \<noteq> cn \<Longrightarrow> name d = cn \<Longrightarrow>
   find (\<lambda>x. name x = cn) (pre @ d # post) = Some d"
  by (induction pre) simp_all

lemma get_corpus_properties_eq:
  "map_of (LANGUAGE_CORPORA t) (language self) = Some corpora \<Longrightarrow>
   get_corpus_properties t self cn s = find_corpus self cn corpora s"
  by (simp add: get_corpus_properties_def bind_def try_except_def subscript_def return_def)

lemma get_corpus_properties_found:
  assumes "map_of (LANGUAGE_CORPORA t) (language self) = Some corpora"
    and "find (\<lambda>x. name x = cn) corpora = Some d"
  shows "get_corpus_properties t self cn s = (Inr d, s)"
  using assms by (simp add: get_corpus_properties_eq find_corpus_found)

lemma sim_greek_table:
  "map_of (LANGUAGE_CORPORA sim_tables) (language \<lparr>language = ''greek''\<rparr>)
     = Some (GREEK_CORPORA sim_tables)"
  by (simp add: LANGUAGE_CORPORA_def)

lemma sim_latin_table:
  "map_of (LANGUAGE_CORPORA sim_tables) (language \<lparr>language = ''latin''\<rparr>)
     = Some (LATIN_CORPORA sim_tables)"
  by (simp add: LANGUAGE_CORPORA_def)

text \<open>
  Claim C3.  Let \<open>corpora\<close> be the table of the importer's language.  If no descriptor of
  the table has the name asked for, \<open>import_corpus\<close> raises \<open>CorpusImportError\<close> and
  leaves the world as it was and the list of external calls as it was: not even a read
  of the file system has happened; the one effect is the line handed to the logger.
  If the table does have the name, \<open>_get_corpus_properties\<close> returns the first
  descriptor with it, whatever follows in the table, a second descriptor of the same
  name included.
\<close>

theorem import_corpus_unknown_corpus:
  assumes "map_of (LANGUAGE_CORPORA t) (language self) = Some corpora"
  shows "((\<forall>d\<in>set corpora. name d \<noteq> cn) \<longrightarrow>
            (\<exists>msg. import_corpus env t self cn lp s =
               (Inl (CorpusImportError msg), s\<lparr>logged := logged s @ [(ERROR, msg)]\<rparr>)))
       \<and> (\<forall>pre d post.
            corpora = pre @ d # post \<and> (\<forall>x\<in>set pre. name x \<noteq> cn) \<and> name d = cn \<longrightarrow>
            get_corpus_properties t self cn s = (Inr d, s))"
proof (intro conjI impI allI)
  assume "\<forall>d\<in>set corpora. name d \<noteq> cn"
  then obtain msg where
    "find_corpus self cn corpora s =
       (Inl (CorpusImportError msg), s\<lparr>logged := logged s @ [(ERROR, msg)]\<rparr>)"
    using find_corpus_none by blast
  then have "import_corpus env t self cn lp s =
       (Inl (CorpusImportError msg), s\<lparr>logged := logged s @ [(ERROR, msg)]\<rparr>)"
    using assms by (simp add: import_corpus_def bind_Inl get_corpus_properties_eq)
  then show "\<exists>msg. import_corpus env t self cn lp s =
       (Inl (CorpusImportError msg), s\<lparr>logged := logged s @ [(ERROR, msg)]\<rparr>)"
    by blast
next
  fix pre d post
  assume "corpora = pre @ d # post \<and> (\<forall>x\<in>set pre. name x \<noteq> cn) \<and> name d = cn"
  then show "get_corpus_properties t self cn s = (Inr d, s)"
    using assms by (simp add: get_corpus_properties_found find_first)
qed

theorem import_corpus_unknown_corpus_witness:
  "(\<exists>msg. import_corpus sim_env sim_tables \<lparr>language = ''greek''\<rparr> ''latin_models_cltk'' None
             (start True [])
           = (Inl (CorpusImportError msg),
              \<lparr>world = \<lparr>nodes = [], online = True\<rparr>, logged = [(ERROR, msg)], calls = []\<rparr>))
   \<and> get_corpus_properties sim_tables \<lparr>language = ''greek''\<rparr> ''tlg'' (start True [])
       = (Inr \<lparr>name = ''tlg'', location = ''local'', type = ''text''\<rparr>, start True [])"
proof (rule conjI)
  have none: "\<forall>d\<in>set (GREEK_CORPORA sim_tables). name d \<noteq> ''latin_models_cltk''"
    by (simp add: sim_tables_def)
  have st: "(start True [])\<lparr>logged := logged (start True []) @ [(ERROR, msg)]\<rparr>
      = \<lparr>world = \<lparr>nodes = [], online = True\<rparr>, logged = [(ERROR, msg)], calls = []\<rparr>" for msg
    by (simp add: start_def)
  show "\<exists>msg. import_corpus sim_env sim_tables \<lparr>language = ''greek''\<rparr> ''latin_models_cltk'' None
             (start True [])
           = (Inl (CorpusImportError msg),
              \<lparr>world = \<lparr>nodes = [], online = True\<rparr>, logged = [(ERROR, msg)], calls = []\<rparr>)"
    using import_corpus_unknown_corpus [OF sim_greek_table, of "''latin_models_cltk''" sim_env
        None "start True []"] none
    unfolding st by (elim conjE impE) assumption
next
  have split: "GREEK_CORPORA sim_tables
      = [\<lparr>name = ''greek_models_cltk'', location = ''remote'', type = ''model''\<rparr>]
        @ \<lparr>name = ''tlg'', location = ''local'', type = ''text''\<rparr>
        # [\<lparr>name = ''greek_proper_names'', location = ''local'', type = ''text''\<rparr>]
      \<and> (\<forall>x\<in>set [\<lparr>name = ''greek_models_cltk'', location = ''remote'', type = ''model''\<rparr>].
            name x \<noteq> ''tlg'')
      \<and> name \<lparr>name = ''tlg'', location = ''local'', type = ''text''\<rparr> = ''tlg''"
    by (simp add: sim_tables_def)
  have "\<forall>pre d post.
          GREEK_CORPORA sim_tables = pre @ d # post \<and> (\<forall>x\<in>set pre. name x \<noteq> ''tlg'')
            \<and> name d = ''tlg'' \<longrightarrow>
          get_corpus_properties sim_tables \<lparr>language = ''greek''\<rparr> ''tlg'' (start True [])
            = (Inr d, start True [])"
    using import_corpus_unknown_corpus [OF sim_greek_table, of "''tlg''" sim_env None
        "start True []"]
    by (elim conjE) assumption
  then show "get_corpus_properties sim_tables \<lparr>language = ''greek''\<rparr> ''tlg'' (start True [])
       = (Inr \<lparr>name = ''tlg'', location = ''local'', type = ''text''\<rparr>, start True [])"
    using split by (elim allE impE) assumption
qed

subsection \<open>Remote corpora\<close>

lemma remote_branch:
  assumes tab: "map_of (LANGUAGE_CORPORA t) (language self) = Some corpora"
    and found: "find (\<lambda>x. name x = cn) corpora = Some d"
    and remote: "location d = ''remote''"
  shows "import_corpus env t self cn lp s =
       (let git_uri = urljoin env ''https://github.com/cltk/'' (cn @ ''.git'');
            type_dir = make_cltk_path env [language self, type d];
            target_dir = os_path_join type_dir [cn];
            target_file = os_path_join type_dir [cn, ''README.md'']
        in
        bind (os_path_isfile env target_file) (\<lambda>present.
        if \<not> present then
          bind (os_path_isdir env type_dir) (\<lambda>d.
          bind (if \<not> d then os_makedirs env type_dir else return ()) (\<lambda>u.
          try_except
            (bind (logger_info (''Cloning '' @ quoted cn @ '' from '' @ quoted git_uri))
               (\<lambda>u. Repo_clone_from env git_uri target_dir 1))
            is_CorpusImportError
            (\<lambda>corpus_imp_err.
               logger_error (''Git clone of '' @ quoted git_uri @ '' failed: ''
                             @ quoted (str_of_exn corpus_imp_err)))))
        else
          try_except
            (bind (Repo_open env target_dir) (\<lambda>repo.
             bind (py_assert (\<not> bare repo)) (\<lambda>u.
             bind (remotes_origin repo) (\<lambda>git_origin.
             bind (logger_info (''Pulling latest '' @ quoted cn @ '' from ''
                                @ quoted git_uri @ ''.'')) (\<lambda>u.
             origin_pull env git_origin)))))
            is_CorpusImportError
            (\<lambda>corpus_imp_err.
               logger_error (''Git pull of '' @ quoted git_uri @ '' failed: ''
                             @ quoted (str_of_exn corpus_imp_err))))) s"
  unfolding import_corpus_def bind_Inr [OF get_corpus_properties_found [OF tab found]]
  by (simp only: remote Let_def if_True simp_thms)

lemma clone_failure_escapes:
  assumes tab: "map_of (LANGUAGE_CORPORA t) (language self) = Some corpora"
    and found: "find (\<lambda>x. name x = cn) corpora = Some d"
    and remote: "location d = ''remote''"
    and names: "type_dir = make_cltk_path env [language self, type d]"
      "target_dir = os_path_join type_dir [cn]"
      "target_file = os_path_join type_dir [cn, ''README.md'']"
      "git_uri = urljoin env ''https://github.com/cltk/'' (cn @ ''.git'')"
    and absent: "\<not> isfile env (world s) target_file"
    and parent: "isdir env (world s) type_dir"
    and clone: "clone_from env git_uri target_dir 1 (world s) = (Some e, w)"
  shows "import_corpus env t self cn lp s =
           (if is_CorpusImportError e
            then (Inr (), s\<lparr>world := w,
                    logged := logged s @ [(INFO, ''Cloning '' @ quoted cn @ '' from '' @ quoted git_uri),
                       (ERROR, ''Git clone of '' @ quoted git_uri @ '' failed: '' @ quoted (str_of_exn e))],
                    calls := calls s @ [IsFile target_file, IsDir type_dir, CloneFrom git_uri target_dir 1]\<rparr>)
            else (Inl e, s\<lparr>world := w,
                    logged := logged s @ [(INFO, ''Cloning '' @ quoted cn @ '' from '' @ quoted git_uri)],
                    calls := calls s @ [IsFile target_file, IsDir type_dir, CloneFrom git_uri target_dir 1]\<rparr>))"
  using names absent parent clone
  unfolding remote_branch [OF tab found remote]
  by (simp add: action_defs Let_def)

lemma pull_failure_escapes:
  assumes tab: "map_of (LANGUAGE_CORPORA t) (language self) = Some corpora"
    and found: "find (\<lambda>x. name x = cn) corpora = Some d"
    and remote: "location d = ''remote''"
    and names: "type_dir = make_cltk_path env [language self, type d]"
      "target_dir = os_path_join type_dir [cn]"
      "target_file = os_path_join type_dir [cn, ''README.md'']"
      "git_uri = urljoin env ''https://github.com/cltk/'' (cn @ ''.git'')"
    and present: "isfile env (world s) target_file"
    and opened: "Repo env target_dir (world s) = Inr r" "\<not> bare r" "has_origin r"
    and pulled: "pull env r (world s) = (Some e, w)"
  shows "import_corpus env t self cn lp s =
           (if is_CorpusImportError e
            then (Inr (), s\<lparr>world := w,
                    logged := logged s
                      @ [(INFO, ''Pulling latest '' @ quoted cn @ '' from '' @ quoted git_uri @ ''.''),
                         (ERROR, ''Git pull of '' @ quoted git_uri @ '' failed: ''
                                 @ quoted (str_of_exn e))],
                    calls := calls s @ [IsFile target_file, RepoOpen target_dir,
                                        Pull (working_dir r)]\<rparr>)
            else (Inl e, s\<lparr>world := w,
                    logged := logged s
                      @ [(INFO, ''Pulling latest '' @ quoted cn @ '' from '' @ quoted git_uri @ ''.'')],
                    calls := calls s @ [IsFile target_file, RepoOpen target_dir,
                                        Pull (working_dir r)]\<rparr>))"
  using names present opened pulled
  unfolding remote_branch [OF tab found remote]
  by (simp add: action_defs Let_def)

lemma sim_greek_models:
  "find (\<lambda>x. name x = ''greek_models_cltk'') (GREEK_CORPORA sim_tables)
     = Some \<lparr>name = ''greek_models_cltk'', location = ''remote'', type = ''model''\<rparr>"
  by (simp add: sim_tables_def)

lemma sim_remote:
  "location \<lparr>name = ''greek_models_cltk'', location = ''remote'', type = ''model''\<rparr> = ''remote''"
  by simp

lemma sim_type_dir:
  "''/home/u/cltk_data/greek/model''
     = make_cltk_path sim_env
         [language \<lparr>language = ''greek''\<rparr>,
          type \<lparr>name = ''greek_models_cltk'', location = ''remote'', type = ''model''\<rparr>]"
  by (simp add: sim_env_def os_path_join_def join_step_def)

lemma sim_target_dir:
  "''/home/u/cltk_data/greek/model/greek_models_cltk''
     = os_path_join ''/home/u/cltk_data/greek/model'' [''greek_models_cltk'']"
  by (simp add: os_path_join_def join_step_def)

lemma sim_target_file:
  "''/home/u/cltk_data/greek/model/greek_models_cltk/README.md''
     = os_path_join ''/home/u/cltk_data/greek/model'' [''greek_models_cltk'', ''README.md'']"
  by (simp add: os_path_join_def join_step_def)

lemma sim_git_uri:
  "''https://github.com/cltk/greek_models_cltk.git''
     = urljoin sim_env ''https://github.com/cltk/'' (''greek_models_cltk'' @ ''.git'')"
  by (simp add: sim_env_def)

text \<open>
  Claim C1.  The claim says that a failure of the clone or of the pull never reaches the
  caller.  Both handlers of \<open>import_corpus\<close> name \<open>CorpusImportError\<close>, the class
  that this module defines and that the git library cannot raise; a failed git command
  raises \<open>GitCommandError\<close>.  On the simulated machine with the remote host out of
  reach, the importer for greek is asked for \<open>greek_models_cltk\<close>.  With the sentinel
  file absent, the error of the clone escapes from \<open>import_corpus\<close> and no line of
  level \<open>ERROR\<close> is logged; with the working copy in place, the same holds for the
  error of the pull.
\<close>

theorem git_failure_reaches_caller:
  "import_corpus sim_env sim_tables \<lparr>language = ''greek''\<rparr> ''greek_models_cltk'' None
     (start False [(''/home/u/cltk_data/greek/model'', Dir [])])
   = (Inl (GitCommandError ''git clone''),
      \<lparr>world = \<lparr>nodes = [(''/home/u/cltk_data/greek/model'', Dir [])], online = False\<rparr>,
       logged = [(INFO, ''Cloning '' @ quoted ''greek_models_cltk'' @ '' from ''
                        @ quoted ''https://github.com/cltk/greek_models_cltk.git'')],
       calls = [IsFile ''/home/u/cltk_data/greek/model/greek_models_cltk/README.md'',
                IsDir ''/home/u/cltk_data/greek/model'',
                CloneFrom ''https://github.com/cltk/greek_models_cltk.git''
                  ''/home/u/cltk_data/greek/model/greek_models_cltk'' 1]\<rparr>)
   \<and> import_corpus sim_env sim_tables \<lparr>language = ''greek''\<rparr> ''greek_models_cltk'' None
       (start False
          [(''/home/u/cltk_data/greek/model/greek_models_cltk'', Dir [''.git'', ''README.md'']),
           (''/home/u/cltk_data/greek/model/greek_models_cltk/README.md'', File ''corpus'')])
     = (Inl (GitCommandError ''git pull''),
        \<lparr>world = \<lparr>nodes =
            [(''/home/u/cltk_data/greek/model/greek_models_cltk'', Dir [''.git'', ''README.md'']),
             (''/home/u/cltk_data/greek/model/greek_models_cltk/README.md'', File ''corpus'')],
            online = False\<rparr>,
         logged = [(INFO, ''Pulling latest '' @ quoted ''greek_models_cltk'' @ '' from ''
                          @ quoted ''https://github.com/cltk/greek_models_cltk.git'' @ ''.'')],
         calls = [IsFile ''/home/u/cltk_data/greek/model/greek_models_cltk/README.md'',
                  RepoOpen ''/home/u/cltk_data/greek/model/greek_models_cltk'',
                  Pull ''/home/u/cltk_data/greek/model/greek_models_cltk'']\<rparr>)"
proof (rule conjI)
  show "import_corpus sim_env sim_tables \<lparr>language = ''greek''\<rparr> ''greek_models_cltk'' None
     (start False [(''/home/u/cltk_data/greek/model'', Dir [])])
   = (Inl (GitCommandError ''git clone''),
      \<lparr>world = \<lparr>nodes = [(''/home/u/cltk_data/greek/model'', Dir [])], online = False\<rparr>,
       logged = [(INFO, ''Cloning '' @ quoted ''greek_models_cltk'' @ '' from ''
                        @ quoted ''https://github.com/cltk/greek_models_cltk.git'')],
       calls = [IsFile ''/home/u/cltk_data/greek/model/greek_models_cltk/README.md'',
                IsDir ''/home/u/cltk_data/greek/model'',
                CloneFrom ''https://github.com/cltk/greek_models_cltk.git''
                  ''/home/u/cltk_data/greek/model/greek_models_cltk'' 1]\<rparr>)"
    by (subst clone_failure_escapes [OF sim_greek_table sim_greek_models sim_remote sim_type_dir
          sim_target_dir sim_target_file sim_git_uri,
          where e = "GitCommandError ''git clone''"
            and w = "\<lparr>nodes = [(''/home/u/cltk_data/greek/model'', Dir [])], online = False\<rparr>"])
      (simp_all add: sim_defs)
next
  show "import_corpus sim_env sim_tables \<lparr>language = ''greek''\<rparr> ''greek_models_cltk'' None
       (start False
          [(''/home/u/cltk_data/greek/model/greek_models_cltk'', Dir [''.git'', ''README.md'']),
           (''/home/u/cltk_data/greek/model/greek_models_cltk/README.md'', File ''corpus'')])
     = (Inl (GitCommandError ''git pull''),
        \<lparr>world = \<lparr>nodes =
            [(''/home/u/cltk_data/greek/model/greek_models_cltk'', Dir [''.git'', ''README.md'']),
             (''/home/u/cltk_data/greek/model/greek_models_cltk/README.md'', File ''corpus'')],
            online = False\<rparr>,
         logged = [(INFO, ''Pulling latest '' @ quoted ''greek_models_cltk'' @ '' from ''
                          @ quoted ''https://github.com/cltk/greek_models_cltk.git'' @ ''.'')],
         calls = [IsFile ''/home/u/cltk_data/greek/model/greek_models_cltk/README.md'',
                  RepoOpen ''/home/u/cltk_data/greek/model/greek_models_cltk'',
                  Pull ''/home/u/cltk_data/greek/model/greek_models_cltk'']\<rparr>)"
    by (subst pull_failure_escapes [OF sim_greek_table sim_greek_models sim_remote sim_type_dir
          sim_target_dir sim_target_file sim_git_uri,
          where e = "GitCommandError ''git pull''"
            and r = "\<lparr>working_dir = ''/home/u/cltk_data/greek/model/greek_models_cltk'',
                      bare = False, has_origin = True\<rparr>"
            and w = "\<lparr>nodes =
            [(''/home/u/cltk_data/greek/model/greek_models_cltk'', Dir [''.git'', ''README.md'']),
             (''/home/u/cltk_data/greek/model/greek_models_cltk/README.md'', File ''corpus'')],
            online = False\<rparr>"])
      (simp_all add: sim_defs)
qed

text \<open>
  Claim C2.  For a remote corpus the one test that chooses between clone and pull is
  \<open>isfile\<close> on the sentinel \<open>README.md\<close> in the target directory.  With the sentinel
  absent, the parent directory is made by \<open>makedirs\<close> when it is missing, and then the
  clone is performed: with depth 1, from \<open>urljoin\<close> of the base and the name with
  \<open>.git\<close>, into the target directory, which is the name joined to the path that
  \<open>make_cltk_path\<close> gives for the language and the type.  The world that
  \<open>import_corpus\<close> leaves is the world that this clone leaves, started in the world
  that \<open>makedirs\<close> left, and the call returns when the clone does.  If \<open>makedirs\<close>
  raises, its exception escapes and no clone is made.  With the sentinel present, the
  working copy in the target directory is opened and, when that gives a repository that
  is not bare and has the remote \<open>origin\<close>, the pull from it is performed: the world
  left is the world that the pull leaves, and the call returns when the pull does.  No
  clone is made then, and no pull in the other case.
\<close>

theorem import_corpus_remote_clone_or_pull:
  assumes tab: "map_of (LANGUAGE_CORPORA t) (language self) = Some corpora"
    and found: "find (\<lambda>x. name x = cn) corpora = Some d"
    and remote: "location d = ''remote''"
    and names: "type_dir = make_cltk_path env [language self, type d]"
      "target_dir = os_path_join type_dir [cn]"
      "target_file = os_path_join type_dir [cn, ''README.md'']"
      "git_uri = urljoin env ''https://github.com/cltk/'' (cn @ ''.git'')"
    and R: "R = import_corpus env t self cn lp s"
  shows "(\<not> isfile env (world s) target_file \<and> isdir env (world s) type_dir \<longrightarrow>
            calls (snd R) = calls s @ [IsFile target_file, IsDir type_dir,
                                        CloneFrom git_uri target_dir 1]
          \<and> world (snd R) = snd (clone_from env git_uri target_dir 1 (world s))
          \<and> fst R = (case fst (clone_from env git_uri target_dir 1 (world s)) of
                       None \<Rightarrow> Inr ()
                     | Some e \<Rightarrow> if is_CorpusImportError e then Inr () else Inl e))
       \<and> (\<not> isfile env (world s) target_file \<and> \<not> isdir env (world s) type_dir
            \<and> fst (makedirs env type_dir (world s)) = None \<longrightarrow>
            calls (snd R) = calls s @ [IsFile target_file, IsDir type_dir, Makedirs type_dir,
                                        CloneFrom git_uri target_dir 1]
          \<and> world (snd R)
              = snd (clone_from env git_uri target_dir 1 (snd (makedirs env type_dir (world s))))
          \<and> fst R = (case fst (clone_from env git_uri target_dir 1
                                  (snd (makedirs env type_dir (world s)))) of
                       None \<Rightarrow> Inr ()
                     | Some e \<Rightarrow> if is_CorpusImportError e then Inr () else Inl e))
       \<and> (\<forall>e. \<not> isfile env (world s) target_file \<and> \<not> isdir env (world s) type_dir
            \<and> fst (makedirs env type_dir (world s)) = Some e \<longrightarrow>
            calls (snd R) = calls s @ [IsFile target_file, IsDir type_dir, Makedirs type_dir]
          \<and> world (snd R) = snd (makedirs env type_dir (world s))
          \<and> fst R = Inl e)
       \<and> (isfile env (world s) target_file \<longrightarrow>
            calls (snd R) = calls s @ [IsFile target_file, RepoOpen target_dir]
              @ (case Repo env target_dir (world s) of
                   Inl e \<Rightarrow> []
                 | Inr r \<Rightarrow> if \<not> bare r \<and> has_origin r then [Pull (working_dir r)] else [])
          \<and> world (snd R)
              = (case Repo env target_dir (world s) of
                   Inl e \<Rightarrow> world s
                 | Inr r \<Rightarrow> if \<not> bare r \<and> has_origin r then snd (pull env r (world s))
                            else world s)
          \<and> fst R
              = (case Repo env target_dir (world s) of
                   Inl e \<Rightarrow> if is_CorpusImportError e then Inr () else Inl e
                 | Inr r \<Rightarrow>
                     if bare r then Inl AssertionError
                     else if \<not> has_origin r then Inl (AttributeError ''origin'')
                     else (case fst (pull env r (world s)) of
                             None \<Rightarrow> Inr ()
                           | Some e \<Rightarrow> if is_CorpusImportError e then Inr () else Inl e)))"
proof (intro conjI impI allI)
  assume a: "\<not> isfile env (world s) target_file \<and> isdir env (world s) type_dir"
  obtain x w where c: "clone_from env git_uri target_dir 1 (world s) = (x, w)"
    by (cases "clone_from env git_uri target_dir 1 (world s)")
  have eq: "R = (case x of
                   None \<Rightarrow> Inr ()
                 | Some e \<Rightarrow> if is_CorpusImportError e then Inr () else Inl e,
                 (snd R))
            \<and> world (snd R) = w
            \<and> calls (snd R) = calls s @ [IsFile target_file, IsDir type_dir,
                                          CloneFrom git_uri target_dir 1]"
    using names a c
    unfolding R remote_branch [OF tab found remote]
    by (cases x) (simp_all add: action_defs Let_def)
  show "calls (snd R) = calls s @ [IsFile target_file, IsDir type_dir,
                                        CloneFrom git_uri target_dir 1]"
    using eq by simp
  show "world (snd R) = snd (clone_from env git_uri target_dir 1 (world s))"
    using eq c by simp
  show "fst R = (case fst (clone_from env git_uri target_dir 1 (world s)) of
                       None \<Rightarrow> Inr ()
                     | Some e \<Rightarrow> if is_CorpusImportError e then Inr () else Inl e)"
    using eq c by (metis fst_conv)
next
  assume a: "\<not> isfile env (world s) target_file \<and> \<not> isdir env (world s) type_dir
            \<and> fst (makedirs env type_dir (world s)) = None"
  then obtain w0 where m: "makedirs env type_dir (world s) = (None, w0)"
    by (cases "makedirs env type_dir (world s)") auto
  obtain x w where c: "clone_from env git_uri target_dir 1 w0 = (x, w)"
    by (cases "clone_from env git_uri target_dir 1 w0")
  have eq: "R = (case x of
                   None \<Rightarrow> Inr ()
                 | Some e \<Rightarrow> if is_CorpusImportError e then Inr () else Inl e,
                 (snd R))
            \<and> world (snd R) = w
            \<and> calls (snd R) = calls s @ [IsFile target_file, IsDir type_dir, Makedirs type_dir,
                                          CloneFrom git_uri target_dir 1]"
    using names a m c
    unfolding R remote_branch [OF tab found remote]
    by (cases x) (simp_all add: action_defs Let_def)
  show "calls (snd R) = calls s @ [IsFile target_file, IsDir type_dir, Makedirs type_dir,
                                        CloneFrom git_uri target_dir 1]"
    using eq by simp
  show "world (snd R)
          = snd (clone_from env git_uri target_dir 1 (snd (makedirs env type_dir (world s))))"
    using eq m c by simp
  show "fst R = (case fst (clone_from env git_uri target_dir 1
                                  (snd (makedirs env type_dir (world s)))) of
                       None \<Rightarrow> Inr ()
                     | Some e \<Rightarrow> if is_CorpusImportError e then Inr () else Inl e)"
    using eq m c by (metis fst_conv snd_conv)
next
  fix e
  assume a: "\<not> isfile env (world s) target_file \<and> \<not> isdir env (world s) type_dir
            \<and> fst (makedirs env type_dir (world s)) = Some e"
  then obtain w0 where m: "makedirs env type_dir (world s) = (Some e, w0)"
    by (cases "makedirs env type_dir (world s)") auto
  have eq: "R = (Inl e, s\<lparr>world := w0,
                           calls := calls s @ [IsFile target_file, IsDir type_dir,
                                               Makedirs type_dir]\<rparr>)"
    using names a m
    unfolding R remote_branch [OF tab found remote]
    by (simp add: action_defs Let_def)
  show "calls (snd R) = calls s @ [IsFile target_file, IsDir type_dir, Makedirs type_dir]"
    using eq by simp
  show "world (snd R) = snd (makedirs env type_dir (world s))"
    using eq m by simp
  show "fst R = Inl e"
    using eq by simp
next
  assume a: "isfile env (world s) target_file"
  show "calls (snd R) = calls s @ [IsFile target_file, RepoOpen target_dir]
              @ (case Repo env target_dir (world s) of
                   Inl e \<Rightarrow> []
                 | Inr r \<Rightarrow> if \<not> bare r \<and> has_origin r then [Pull (working_dir r)] else [])"
    using names a
    unfolding R remote_branch [OF tab found remote]
    by (auto simp: action_defs Let_def split: prod.splits option.splits sum.splits)
  show "world (snd R)
              = (case Repo env target_dir (world s) of
                   Inl e \<Rightarrow> world s
                 | Inr r \<Rightarrow> if \<not> bare r \<and> has_origin r then snd (pull env r (world s))
                            else world s)"
    using names a
    unfolding R remote_branch [OF tab found remote]
    by (auto simp: action_defs Let_def split: prod.splits option.splits sum.splits)
  show "fst R
              = (case Repo env target_dir (world s) of
                   Inl e \<Rightarrow> if is_CorpusImportError e then Inr () else Inl e
                 | Inr r \<Rightarrow>
                     if bare r then Inl AssertionError
                     else if \<not> has_origin r then Inl (AttributeError ''origin'')
                     else (case fst (pull env r (world s)) of
                             None \<Rightarrow> Inr ()
                           | Some e \<Rightarrow> if is_CorpusImportError e then Inr () else Inl e))"
    using names a
    unfolding R remote_branch [OF tab found remote]
    by (auto simp: action_defs Let_def split: prod.splits option.splits sum.splits)
qed

theorem import_corpus_remote_clone_or_pull_witness:
  "\<not> sim_isfile \<lparr>nodes = [], online = True\<rparr>
       ''/home/u/cltk_data/greek/model/greek_models_cltk/README.md''
   \<and> import_corpus sim_env sim_tables \<lparr>language = ''greek''\<rparr> ''greek_models_cltk'' None
       (start True [])
     = (Inr (),
        \<lparr>world = \<lparr>nodes =
            [(''/home/u/cltk_data/greek/model/greek_models_cltk'', Dir [''.git'', ''README.md'']),
             (''/home/u/cltk_data/greek/model/greek_models_cltk/README.md'',
              File ''https://github.com/cltk/greek_models_cltk.git''),
             (''/home/u/cltk_data/greek/model'', Dir [])], online = True\<rparr>,
         logged = [(INFO, ''Cloning '' @ quoted ''greek_models_cltk'' @ '' from ''
                          @ quoted ''https://github.com/cltk/greek_models_cltk.git'')],
         calls = [IsFile ''/home/u/cltk_data/greek/model/greek_models_cltk/README.md'',
                  IsDir ''/home/u/cltk_data/greek/model'',
                  Makedirs ''/home/u/cltk_data/greek/model'',
                  CloneFrom ''https://github.com/cltk/greek_models_cltk.git''
                    ''/home/u/cltk_data/greek/model/greek_models_cltk'' 1]\<rparr>)
   \<and> fst (import_corpus sim_env sim_tables \<lparr>language = ''greek''\<rparr> ''greek_models_cltk'' None
            (start True
               [(''/home/u/cltk_data/greek/model/greek_models_cltk'',
                 Dir [''.git'', ''README.md'']),
                (''/home/u/cltk_data/greek/model/greek_models_cltk/README.md'',
                 File ''corpus'')])) = Inr ()
   \<and> world (snd (import_corpus sim_env sim_tables \<lparr>language = ''greek''\<rparr> ''greek_models_cltk''
                    None
                    (start True
                       [(''/home/u/cltk_data/greek/model/greek_models_cltk'',
                         Dir [''.git'', ''README.md'']),
                        (''/home/u/cltk_data/greek/model/greek_models_cltk/README.md'',
                         File ''corpus'')])))
       = \<lparr>nodes = [(''/home/u/cltk_data/greek/model/greek_models_cltk'',
                     Dir [''.git'', ''README.md'']),
                    (''/home/u/cltk_data/greek/model/greek_models_cltk/README.md'',
                     File ''corpus'')], online = True\<rparr>
   \<and> calls (snd (import_corpus sim_env sim_tables \<lparr>language = ''greek''\<rparr> ''greek_models_cltk''
                    None
                    (start True
                       [(''/home/u/cltk_data/greek/model/greek_models_cltk'',
                         Dir [''.git'', ''README.md'']),
                        (''/home/u/cltk_data/greek/model/greek_models_cltk/README.md'',
                         File ''corpus'')])))
       = [IsFile ''/home/u/cltk_data/greek/model/greek_models_cltk/README.md'',
          RepoOpen ''/home/u/cltk_data/greek/model/greek_models_cltk'',
          Pull ''/home/u/cltk_data/greek/model/greek_models_cltk'']"
proof -
  let ?s = "start True []"
  let ?u = "start True
                       [(''/home/u/cltk_data/greek/model/greek_models_cltk'',
                         Dir [''.git'', ''README.md'']),
                        (''/home/u/cltk_data/greek/model/greek_models_cltk/README.md'',
                         File ''corpus'')]"
  have first: "import_corpus sim_env sim_tables \<lparr>language = ''greek''\<rparr> ''greek_models_cltk'' None ?s
     = (Inr (),
        \<lparr>world = \<lparr>nodes =
            [(''/home/u/cltk_data/greek/model/greek_models_cltk'', Dir [''.git'', ''README.md'']),
             (''/home/u/cltk_data/greek/model/greek_models_cltk/README.md'',
              File ''https://github.com/cltk/greek_models_cltk.git''),
             (''/home/u/cltk_data/greek/model'', Dir [])], online = True\<rparr>,
         logged = [(INFO, ''Cloning '' @ quoted ''greek_models_cltk'' @ '' from ''
                          @ quoted ''https://github.com/cltk/greek_models_cltk.git'')],
         calls = [IsFile ''/home/u/cltk_data/greek/model/greek_models_cltk/README.md'',
                  IsDir ''/home/u/cltk_data/greek/model'',
                  Makedirs ''/home/u/cltk_data/greek/model'',
                  CloneFrom ''https://github.com/cltk/greek_models_cltk.git''
                    ''/home/u/cltk_data/greek/model/greek_models_cltk'' 1]\<rparr>)"
    unfolding remote_branch [OF sim_greek_table sim_greek_models sim_remote]
    by (simp add: action_defs sim_defs Let_def os_path_join_def join_step_def)
  show ?thesis
    using import_corpus_remote_clone_or_pull [OF sim_greek_table sim_greek_models sim_remote
        sim_type_dir sim_target_dir sim_target_file sim_git_uri refl,
        where lp = None and s = ?s]
      import_corpus_remote_clone_or_pull [OF sim_greek_table sim_greek_models sim_remote
        sim_type_dir sim_target_dir sim_target_file sim_git_uri refl,
        where lp = None and s = ?u]
      first
    by (simp add: sim_defs)
qed

text \<open>
  Claim C7.  Two calls of \<open>import_corpus\<close> for one remote corpus, the second in the
  state the first has left, starting with the sentinel absent.  The run considered is
  the one the claim speaks of, a successful acquisition: the parent directory is there
  or \<open>makedirs\<close> makes it, the clone succeeds and leaves the sentinel, the target
  directory then opens as a working copy that is not bare and has the remote \<open>origin\<close>,
  and the pull succeeds and keeps the sentinel.  Then both calls return, the first makes
  the one clone and no pull, the second the one pull and no clone, and the sentinel is
  there after the first call and after the second.
\<close>

theorem import_corpus_twice:
  assumes tab: "map_of (LANGUAGE_CORPORA t) (language self) = Some corpora"
    and found: "find (\<lambda>x. name x = cn) corpora = Some d"
    and remote: "location d = ''remote''"
    and names: "type_dir = make_cltk_path env [language self, type d]"
      "target_dir = os_path_join type_dir [cn]"
      "target_file = os_path_join type_dir [cn, ''README.md'']"
      "git_uri = urljoin env ''https://github.com/cltk/'' (cn @ ''.git'')"
    and absent: "\<not> isfile env (world s) target_file"
    and parent: "if isdir env (world s) type_dir then w1 = world s
                 else makedirs env type_dir (world s) = (None, w1)"
    and clone: "clone_from env git_uri target_dir 1 w1 = (None, w2)"
    and sentinel: "isfile env w2 target_file"
    and opened: "Repo env target_dir w2 = Inr r" "\<not> bare r" "has_origin r"
    and pulled: "pull env r w2 = (None, w3)" "isfile env w3 target_file"
    and s1: "s1 = snd (import_corpus env t self cn lp s)"
    and s2: "s2 = snd (import_corpus env t self cn lp s1)"
  shows "fst (import_corpus env t self cn lp s) = Inr ()
       \<and> fst (import_corpus env t self cn lp s1) = Inr ()
       \<and> calls s2 = calls s @ [IsFile target_file, IsDir type_dir]
                   @ (if isdir env (world s) type_dir then [] else [Makedirs type_dir])
                   @ [CloneFrom git_uri target_dir 1,
                      IsFile target_file, RepoOpen target_dir, Pull (working_dir r)]
       \<and> world s1 = w2 \<and> isfile env (world s1) target_file
       \<and> world s2 = w3 \<and> isfile env (world s2) target_file"
proof -
  have first: "import_corpus env t self cn lp s =
      (Inr (), s\<lparr>world := w2,
                 logged := logged s @ [(INFO, ''Cloning '' @ quoted cn @ '' from '' @ quoted git_uri)],
                 calls := calls s @ [IsFile target_file, IsDir type_dir]
                   @ (if isdir env (world s) type_dir then [] else [Makedirs type_dir])
                   @ [CloneFrom git_uri target_dir 1]\<rparr>)"
  proof (cases "isdir env (world s) type_dir")
    case True
    then show ?thesis
      using names absent parent clone
      unfolding remote_branch [OF tab found remote]
      by (simp add: action_defs Let_def)
  next
    case False
    then show ?thesis
      using names absent parent clone
      unfolding remote_branch [OF tab found remote]
      by (simp add: action_defs Let_def)
  qed
  have w1: "world s1 = w2" and c1: "calls s1 = calls s @ [IsFile target_file, IsDir type_dir]
                   @ (if isdir env (world s) type_dir then [] else [Makedirs type_dir])
                   @ [CloneFrom git_uri target_dir 1]"
    using first s1 by simp_all
  have second: "import_corpus env t self cn lp s1 =
      (Inr (), s1\<lparr>world := w3,
                 logged := logged s1 @ [(INFO, ''Pulling latest '' @ quoted cn @ '' from ''
                                @ quoted git_uri @ ''.'')],
                 calls := calls s1 @ [IsFile target_file, RepoOpen target_dir, Pull (working_dir r)]\<rparr>)"
    using names sentinel opened pulled w1
    unfolding remote_branch [OF tab found remote]
    by (simp add: action_defs Let_def)
  show ?thesis
    using first second s1 s2 w1 c1 sentinel pulled by simp
qed

theorem import_corpus_twice_witness:
  "fst (import_corpus sim_env sim_tables \<lparr>language = ''greek''\<rparr> ''greek_models_cltk'' None
          (start True [])) = Inr ()
   \<and> fst (import_corpus sim_env sim_tables \<lparr>language = ''greek''\<rparr> ''greek_models_cltk'' None
            (snd (import_corpus sim_env sim_tables \<lparr>language = ''greek''\<rparr> ''greek_models_cltk''
                    None (start True [])))) = Inr ()
   \<and> calls (snd (import_corpus sim_env sim_tables \<lparr>language = ''greek''\<rparr> ''greek_models_cltk''
              None
              (snd (import_corpus sim_env sim_tables \<lparr>language = ''greek''\<rparr>
                      ''greek_models_cltk'' None (start True [])))))
       = [IsFile ''/home/u/cltk_data/greek/model/greek_models_cltk/README.md'',
          IsDir ''/home/u/cltk_data/greek/model'',
          Makedirs ''/home/u/cltk_data/greek/model'',
          CloneFrom ''https://github.com/cltk/greek_models_cltk.git''
            ''/home/u/cltk_data/greek/model/greek_models_cltk'' 1,
          IsFile ''/home/u/cltk_data/greek/model/greek_models_cltk/README.md'',
          RepoOpen ''/home/u/cltk_data/greek/model/greek_models_cltk'',
          Pull ''/home/u/cltk_data/greek/model/greek_models_cltk'']
   \<and> sim_isfile
        (world (snd (import_corpus sim_env sim_tables \<lparr>language = ''greek''\<rparr>
                       ''greek_models_cltk'' None
                       (snd (import_corpus sim_env sim_tables \<lparr>language = ''greek''\<rparr>
                               ''greek_models_cltk'' None (start True []))))))
        ''/home/u/cltk_data/greek/model/greek_models_cltk/README.md''"
proof -
  let ?w1 = "\<lparr>nodes = [(''/home/u/cltk_data/greek/model'', Dir [])], online = True\<rparr>"
  let ?w2 = "\<lparr>nodes = [(''/home/u/cltk_data/greek/model/greek_models_cltk'',
                         Dir [''.git'', ''README.md'']),
                        (''/home/u/cltk_data/greek/model/greek_models_cltk/README.md'',
                         File ''https://github.com/cltk/greek_models_cltk.git''),
                        (''/home/u/cltk_data/greek/model'', Dir [])], online = True\<rparr>"
  let ?r = "\<lparr>working_dir = ''/home/u/cltk_data/greek/model/greek_models_cltk'',
             bare = False, has_origin = True\<rparr>"
  have absent: "\<not> isfile sim_env (world (start True []))
                    ''/home/u/cltk_data/greek/model/greek_models_cltk/README.md''"
    by (simp add: sim_defs)
  have parent: "if isdir sim_env (world (start True [])) ''/home/u/cltk_data/greek/model''
                then ?w1 = world (start True [])
                else makedirs sim_env ''/home/u/cltk_data/greek/model'' (world (start True []))
                     = (None, ?w1)"
    by (simp add: sim_defs)
  have clone: "clone_from sim_env ''https://github.com/cltk/greek_models_cltk.git''
                 ''/home/u/cltk_data/greek/model/greek_models_cltk'' 1 ?w1 = (None, ?w2)"
    by (simp add: sim_defs os_path_join_def join_step_def)
  have sentinel: "isfile sim_env ?w2 ''/home/u/cltk_data/greek/model/greek_models_cltk/README.md''"
    by (simp add: sim_defs)
  have opened: "Repo sim_env ''/home/u/cltk_data/greek/model/greek_models_cltk'' ?w2 = Inr ?r"
    "\<not> bare ?r" "has_origin ?r"
    by (simp_all add: sim_defs)
  have pulled: "pull sim_env ?r ?w2 = (None, ?w2)"
    by (simp add: sim_defs)
  show ?thesis
    using import_corpus_twice [OF sim_greek_table sim_greek_models sim_remote
        sim_type_dir sim_target_dir sim_target_file sim_git_uri absent parent clone sentinel
        opened pulled sentinel refl refl, where lp = None]
    by (simp add: sim_defs)
qed

subsection \<open>Local corpora\<close>

lemma legacy_branch:
  assumes tab: "map_of (LANGUAGE_CORPORA t) (language self) = Some corpora"
    and found: "find (\<lambda>x. name x = cn) corpora = Some d"
    and local: "location d = ''local''"
    and legacy: "cn \<in> {''phi5'', ''phi7'', ''tlg''}"
  shows "\<exists>lg. import_corpus env t self cn (Some p) s =
     bind (os_path_isdir env (make_cltk_path env [''originals''])) (\<lambda>d.
     bind (if \<not> d
           then bind (os_makedirs env (make_cltk_path env [''originals''])) (\<lambda>u.
                  logger_info (''Wrote directory at '' @ quoted (make_cltk_path env [''originals'']) @ ''.''))
           else return ()) (\<lambda>u.
     bind (os_path_isdir env (make_cltk_path env [''originals'', cn])) (\<lambda>d.
     bind (if d
           then bind (shutil_rmtree env (make_cltk_path env [''originals'', cn])) (\<lambda>u.
                  logger_info (''Removed directory at '' @ quoted (make_cltk_path env [''originals'', cn]) @ ''.''))
           else return ()) (\<lambda>u.
     bind (os_path_isdir env (make_cltk_path env [''originals'', cn])) (\<lambda>d.
     if \<not> d then copy_dir_recursive env (rstrip p os_pathsep) (make_cltk_path env [''originals'', cn])
     else return ())))))
     (s\<lparr>logged := lg\<rparr>)"
proof -
  have sel: "import_corpus env t self cn (Some p) s =
     bind (if cn = ''phi5''
               then (if snd (os_path_split (rstrip p os_pathsep)) \<noteq> ''PHI5''
                     then logger_info (''Directory must be named '' @ quoted ''PHI5'' @ ''.'')
                     else return ())
               else return ()) (\<lambda>u.
         bind (if cn = ''phi7''
               then (if snd (os_path_split (rstrip p os_pathsep)) \<noteq> ''PHI7''
                     then logger_info (''Directory must be named '' @ quoted ''PHI7'' @ ''.'')
                     else return ())
               else return ()) (\<lambda>u.
         bind (if cn = ''tlg''
               then (if snd (os_path_split (rstrip p os_pathsep)) \<noteq> ''TLG_E''
                     then logger_info (''Directory must be named '' @ quoted ''TLG_E'' @ ''.'')
                     else return ())
               else return ()) (\<lambda>u.
     bind (os_path_isdir env (make_cltk_path env [''originals''])) (\<lambda>d.
     bind (if \<not> d
           then bind (os_makedirs env (make_cltk_path env [''originals''])) (\<lambda>u.
                  logger_info (''Wrote directory at '' @ quoted (make_cltk_path env [''originals'']) @ ''.''))
           else return ()) (\<lambda>u.
     bind (os_path_isdir env (make_cltk_path env [''originals'', cn])) (\<lambda>d.
     bind (if d
           then bind (shutil_rmtree env (make_cltk_path env [''originals'', cn])) (\<lambda>u.
                  logger_info (''Removed directory at '' @ quoted (make_cltk_path env [''originals'', cn]) @ ''.''))
           else return ()) (\<lambda>u.
     bind (os_path_isdir env (make_cltk_path env [''originals'', cn])) (\<lambda>d.
     if \<not> d then copy_dir_recursive env (rstrip p os_pathsep) (make_cltk_path env [''originals'', cn])
     else return ()))))))))
     (s\<lparr>logged := logged s @ [(INFO, ''Importing from local path: '' @ quoted p)]\<rparr>)"
    using legacy local
    unfolding import_corpus_def bind_Inr [OF get_corpus_properties_found [OF tab found]]
    by (simp add: Let_def bind_logger_info rstrip_opt_def bind_return format_opt_def
          del: bind_def)
  show ?thesis
    unfolding sel using legacy
    by (auto simp: bind_return bind_logger_info)
qed

lemma legacy_reaches_copy:
  assumes tab: "map_of (LANGUAGE_CORPORA t) (language self) = Some corpora"
    and found: "find (\<lambda>x. name x = cn) corpora = Some d"
    and local: "location d = ''local''"
    and legacy: "cn \<in> {''phi5'', ''phi7'', ''tlg''}"
    and names: "originals_dir = make_cltk_path env [''originals'']"
      "dst = make_cltk_path env [''originals'', cn]"
    and staging: "if isdir env (world s) originals_dir then wa = world s
                  else makedirs env originals_dir (world s) = (None, wa)"
    and removal: "if isdir env wa dst then rmtree env dst wa = (None, wb) else wb = wa"
    and gone: "\<not> isdir env wb dst"
  shows "\<exists>lg. import_corpus env t self cn (Some p) s =
           copy_dir_recursive env (rstrip p os_pathsep) dst
             (s\<lparr>world := wb, logged := lg,
                calls := calls s @ [IsDir originals_dir]
                  @ (if isdir env (world s) originals_dir then [] else [Makedirs originals_dir])
                  @ [IsDir dst] @ (if isdir env wa dst then [Rmtree dst] else [])
                  @ [IsDir dst]\<rparr>)"
proof -
  obtain lg where eq: "import_corpus env t self cn (Some p) s =
     bind (os_path_isdir env (make_cltk_path env [''originals''])) (\<lambda>d.
     bind (if \<not> d
           then bind (os_makedirs env (make_cltk_path env [''originals''])) (\<lambda>u.
                  logger_info (''Wrote directory at '' @ quoted (make_cltk_path env [''originals'']) @ ''.''))
           else return ()) (\<lambda>u.
     bind (os_path_isdir env (make_cltk_path env [''originals'', cn])) (\<lambda>d.
     bind (if d
           then bind (shutil_rmtree env (make_cltk_path env [''originals'', cn])) (\<lambda>u.
                  logger_info (''Removed directory at '' @ quoted (make_cltk_path env [''originals'', cn]) @ ''.''))
           else return ()) (\<lambda>u.
     bind (os_path_isdir env (make_cltk_path env [''originals'', cn])) (\<lambda>d.
     if \<not> d then copy_dir_recursive env (rstrip p os_pathsep) (make_cltk_path env [''originals'', cn])
     else return ())))))
     (s\<lparr>logged := lg\<rparr>)"
    using legacy_branch [OF tab found local legacy] by blast
  show ?thesis
  proof (cases "isdir env (world s) originals_dir")
    case True
    note o = True
    show ?thesis
    proof (cases "isdir env wa dst")
      case True
      then show ?thesis
        unfolding eq using o staging removal gone names
        by (auto simp: action_defs)
    next
      case False
      then show ?thesis
        unfolding eq using o staging removal gone names
        by (auto simp: action_defs)
    qed
  next
    case False
    note o = False
    show ?thesis
    proof (cases "isdir env wa dst")
      case True
      then show ?thesis
        unfolding eq using o staging removal gone names
        by (auto simp: action_defs)
    next
      case False
      then show ?thesis
        unfolding eq using o staging removal gone names
        by (auto simp: action_defs)
    qed
  qed
qed

lemma copy_dir_recursive_result:
  assumes "copytree env src dst (world s) = (x, w)"
  shows "copy_dir_recursive env src dst s =
     (case x of
        None \<Rightarrow>
          (Inr (), s\<lparr>world := w,
                     logged := logged s @ [(INFO, ''Files copied from '' @ src @ '' to '' @ dst)],
                     calls := calls s @ [Copytree src dst]\<rparr>)
      | Some e \<Rightarrow>
          if e = OSError (Some ENOTDIR)
          then (case copy env src dst w of
                  (None, w') \<Rightarrow>
                    (Inr (), s\<lparr>world := w',
                       logged := logged s @ [(INFO, ''Files copied from '' @ src @ '' to '' @ dst)],
                       calls := calls s @ [Copytree src dst, Copy src dst]\<rparr>)
                | (Some e', w') \<Rightarrow>
                    (Inl e', s\<lparr>world := w', calls := calls s @ [Copytree src dst, Copy src dst]\<rparr>))
          else (Inl e, s\<lparr>world := w, calls := calls s @ [Copytree src dst]\<rparr>))"
proof (cases x)
  case None
  then show ?thesis using assms by (simp add: copy_dir_recursive_def action_defs)
next
  case (Some e)
  then show ?thesis using assms
    by (cases e) (auto simp: copy_dir_recursive_def action_defs split: prod.splits option.splits)
qed

lemma legacy_rmtree_fails:
  assumes tab: "map_of (LANGUAGE_CORPORA t) (language self) = Some corpora"
    and found: "find (\<lambda>x. name x = cn) corpora = Some d"
    and local: "location d = ''local''"
    and legacy: "cn \<in> {''phi5'', ''phi7'', ''tlg''}"
    and staged: "isdir env (world s) (make_cltk_path env [''originals''])"
    and present: "isdir env (world s) (make_cltk_path env [''originals'', cn])"
    and rm: "rmtree env (make_cltk_path env [''originals'', cn]) (world s) = (Some e, w)"
  shows "fst (import_corpus env t self cn (Some p) s) = Inl e"
proof -
  obtain lg where eq: "import_corpus env t self cn (Some p) s =
     bind (os_path_isdir env (make_cltk_path env [''originals''])) (\<lambda>d.
     bind (if \<not> d
           then bind (os_makedirs env (make_cltk_path env [''originals''])) (\<lambda>u.
                  logger_info (''Wrote directory at '' @ quoted (make_cltk_path env [''originals'']) @ ''.''))
           else return ()) (\<lambda>u.
     bind (os_path_isdir env (make_cltk_path env [''originals'', cn])) (\<lambda>d.
     bind (if d
           then bind (shutil_rmtree env (make_cltk_path env [''originals'', cn])) (\<lambda>u.
                  logger_info (''Removed directory at '' @ quoted (make_cltk_path env [''originals'', cn]) @ ''.''))
           else return ()) (\<lambda>u.
     bind (os_path_isdir env (make_cltk_path env [''originals'', cn])) (\<lambda>d.
     if \<not> d then copy_dir_recursive env (rstrip p os_pathsep) (make_cltk_path env [''originals'', cn])
     else return ())))))
     (s\<lparr>logged := lg\<rparr>)"
    using legacy_branch [OF tab found local legacy] by blast
  show ?thesis
    unfolding eq using staged present rm by (simp add: action_defs)
qed

lemma sim_phi5:
  "find (\<lambda>x. name x = ''phi5'') (LATIN_CORPORA sim_tables)
     = Some \<lparr>name = ''phi5'', location = ''local'', type = ''text''\<rparr>"
  by (simp add: sim_tables_def)

lemma sim_local: "location \<lparr>name = ''phi5'', location = ''local'', type = ''text''\<rparr> = ''local''"
  by simp

lemma sim_legacy: "''phi5'' \<in> {''phi5'', ''phi7'', ''tlg''}"
  by simp

lemma sim_originals_dir: "''/home/u/cltk_data/originals'' = make_cltk_path sim_env [''originals'']"
  by (simp add: sim_env_def os_path_join_def join_step_def)

lemma sim_dst:
  "''/home/u/cltk_data/originals/phi5'' = make_cltk_path sim_env [''originals'', ''phi5'']"
  by (simp add: sim_env_def os_path_join_def join_step_def)

lemma sim_src: "''/data/PHI5'' = rstrip ''/data/PHI5'' os_pathsep"
  by (simp add: rstrip_def os_pathsep_def)

lemma map_of_filter_removed: "map_of (filter (\<lambda>kv. fst kv \<noteq> p) xs) p = None"
  by (induction xs) auto

lemma sim_rmtree_removes: "rmtree sim_env p w = (None, w') \<Longrightarrow> \<not> isdir sim_env w' p"
  by (auto simp: sim_env_def sim_rmtree_def sim_isdir_def map_of_filter_removed
      split: option.splits node.splits)

lemma sim_copytree_copies:
  "copytree sim_env src dst w = (None, w') \<Longrightarrow> map_of (nodes w') dst = map_of (nodes w) src"
  by (auto simp: sim_env_def sim_copytree_def split: option.splits node.splits)

lemma sim_import_phi5:
  "import_corpus sim_env sim_tables \<lparr>language = ''latin''\<rparr> ''phi5'' lp s
     = bind (logger_info (''Importing from local path: '' @ quoted (format_opt lp))) (\<lambda>u.
         bind (rstrip_opt lp os_pathsep) (\<lambda>local_path.
         bind (if snd (os_path_split local_path) \<noteq> ''PHI5''
               then logger_info (''Directory must be named '' @ quoted ''PHI5'' @ ''.'')
               else return ()) (\<lambda>u.
         bind (os_path_isdir sim_env ''/home/u/cltk_data/originals'') (\<lambda>d.
         bind (if \<not> d
               then bind (os_makedirs sim_env ''/home/u/cltk_data/originals'') (\<lambda>u.
                      logger_info (''Wrote directory at ''
                                   @ quoted ''/home/u/cltk_data/originals'' @ ''.''))
               else return ()) (\<lambda>u.
         bind (os_path_isdir sim_env ''/home/u/cltk_data/originals/phi5'') (\<lambda>d.
         bind (if d
               then bind (shutil_rmtree sim_env ''/home/u/cltk_data/originals/phi5'') (\<lambda>u.
                      logger_info (''Removed directory at ''
                                   @ quoted ''/home/u/cltk_data/originals/phi5'' @ ''.''))
               else return ()) (\<lambda>u.
         bind (os_path_isdir sim_env ''/home/u/cltk_data/originals/phi5'') (\<lambda>d.
         if \<not> d then copy_dir_recursive sim_env local_path ''/home/u/cltk_data/originals/phi5''
         else return ())))))))) s"
  unfolding import_corpus_def bind_Inr [OF get_corpus_properties_found [OF sim_latin_table sim_phi5]]
  by (simp add: Let_def bind_return_eq sim_originals_dir [symmetric] sim_dst [symmetric])

lemmas run_defs = action_defs sim_defs copy_dir_recursive_def rstrip_opt_def rstrip_def
  os_pathsep_def os_path_split_def format_opt_def os_path_join_def join_step_def Let_def ENOTDIR_def

text \<open>
  Claim C4.  A legacy corpus whose destination \<open>originals/<corpus_name>\<close> is a
  directory when \<open>import_corpus\<close> is called, in an import that returns.  The functions
  of \<open>shutil\<close> are taken with their contracts: after an \<open>rmtree\<close> that returned, the
  path is no directory; after a \<open>copytree\<close> that returned, what is below the
  destination is what was below the source (\<open>contents\<close> is any reading of a path in a
  world with this property).  Then \<open>rmtree\<close> has removed the destination before
  anything was copied, the copy has started from a world without the destination, and in
  the end the destination holds what the source held, so nothing of the old tree is
  left.  The second alternative is the source that is a single file, copied by
  \<open>shutil.copy\<close> after the removal.
\<close>

theorem import_corpus_local_overwrites:
  fixes contents :: "'w \<Rightarrow> string \<Rightarrow> 'c" and env :: "'w os_env"
  assumes tab: "map_of (LANGUAGE_CORPORA t) (language self) = Some corpora"
    and found: "find (\<lambda>x. name x = cn) corpora = Some d"
    and local: "location d = ''local''"
    and legacy: "cn \<in> {''phi5'', ''phi7'', ''tlg''}"
    and names: "originals_dir = make_cltk_path env [''originals'']"
      "dst = make_cltk_path env [''originals'', cn]"
    and src: "src = rstrip p os_pathsep"
    and staged: "isdir env (world s) originals_dir"
    and present: "isdir env (world s) dst"
    and rmtree_removes: "\<And>w w'. rmtree env dst w = (None, w') \<Longrightarrow> \<not> isdir env w' dst"
    and copytree_copies:
      "\<And>w w'. copytree env src dst w = (None, w') \<Longrightarrow> contents w' dst = contents w src"
    and returns: "import_corpus env t self cn (Some p) s = (Inr (), s')"
  shows "\<exists>wb. rmtree env dst (world s) = (None, wb) \<and> \<not> isdir env wb dst
           \<and> (copytree env src dst wb = (None, world s')
                \<and> contents (world s') dst = contents wb src
                \<and> calls s' = calls s @ [IsDir originals_dir, IsDir dst, Rmtree dst, IsDir dst,
                                          Copytree src dst]
              \<or> (\<exists>wc. copytree env src dst wb = (Some (OSError (Some ENOTDIR)), wc)
                    \<and> copy env src dst wc = (None, world s')
                    \<and> calls s' = calls s @ [IsDir originals_dir, IsDir dst, Rmtree dst,
                                              IsDir dst, Copytree src dst, Copy src dst]))"
proof -
  obtain x wb where rm: "rmtree env dst (world s) = (x, wb)"
    by (cases "rmtree env dst (world s)")
  have x: "x = None"
  proof (cases x)
    case None
    then show ?thesis .
  next
    case (Some e)
    then have "fst (import_corpus env t self cn (Some p) s) = Inl e"
      using legacy_rmtree_fails [OF tab found local legacy] staged present rm names
      by simp
    then show ?thesis using returns by simp
  qed
  have rm': "rmtree env dst (world s) = (None, wb)" using rm x by simp
  have gone: "\<not> isdir env wb dst" using rmtree_removes [OF rm'] .
  have staging: "if isdir env (world s) originals_dir then world s = world s
                  else makedirs env originals_dir (world s) = (None, world s)"
    using staged by simp
  have removal: "if isdir env (world s) dst then rmtree env dst (world s) = (None, wb) else wb = world s"
    using present rm' by simp
  obtain lg where eq: "import_corpus env t self cn (Some p) s =
      copy_dir_recursive env src dst
        (s\<lparr>world := wb, logged := lg,
           calls := calls s @ [IsDir originals_dir, IsDir dst, Rmtree dst, IsDir dst]\<rparr>)"
    using legacy_reaches_copy [OF tab found local legacy names staging removal gone, of p]
      staged present src by auto
  obtain y wc where ct: "copytree env src dst wb = (y, wc)"
    by (cases "copytree env src dst wb")
  then have ct': "copytree env src dst (world (s\<lparr>world := wb, logged := lg,
           calls := calls s @ [IsDir originals_dir, IsDir dst, Rmtree dst, IsDir dst]\<rparr>)) = (y, wc)"
    by simp
  show ?thesis
  proof (cases y)
    case None
    then have "world s' = wc \<and> calls s' = calls s @ [IsDir originals_dir, IsDir dst, Rmtree dst, IsDir dst,
                                          Copytree src dst]"
      using returns unfolding eq copy_dir_recursive_result [OF ct'] by auto
    then show ?thesis
      using rm' gone ct None copytree_copies [of wb wc] by auto
  next
    case (Some e)
    then have e: "e = OSError (Some ENOTDIR)"
      using returns unfolding eq copy_dir_recursive_result [OF ct'] by (auto split: if_splits)
    obtain z wd where cp: "copy env src dst wc = (z, wd)"
      by (cases "copy env src dst wc")
    have "z = None \<and> world s' = wd \<and> calls s' = calls s @ [IsDir originals_dir, IsDir dst, Rmtree dst, IsDir dst,
                                          Copytree src dst, Copy src dst]"
      using returns Some e cp unfolding eq copy_dir_recursive_result [OF ct']
      by (cases z) auto
    then show ?thesis
      using rm' gone ct Some e cp by auto
  qed
qed

theorem import_corpus_local_overwrites_witness:
  "map_of (nodes (world (start True
       [(''/home/u/cltk_data/originals'', Dir [''phi5'']),
        (''/home/u/cltk_data/originals/phi5'', Dir [''stale.idt'']),
        (''/data/PHI5'', Dir [''new.idt''])]))) ''/home/u/cltk_data/originals/phi5''
     = Some (Dir [''stale.idt''])
   \<and> fst (import_corpus sim_env sim_tables \<lparr>language = ''latin''\<rparr> ''phi5'' (Some ''/data/PHI5'')
       (start True
          [(''/home/u/cltk_data/originals'', Dir [''phi5'']),
           (''/home/u/cltk_data/originals/phi5'', Dir [''stale.idt'']),
           (''/data/PHI5'', Dir [''new.idt''])])) = Inr ()
   \<and> map_of (nodes (world (snd (import_corpus sim_env sim_tables \<lparr>language = ''latin''\<rparr> ''phi5''
       (Some ''/data/PHI5'')
       (start True
          [(''/home/u/cltk_data/originals'', Dir [''phi5'']),
           (''/home/u/cltk_data/originals/phi5'', Dir [''stale.idt'']),
           (''/data/PHI5'', Dir [''new.idt''])]))))) ''/home/u/cltk_data/originals/phi5''
     = Some (Dir [''new.idt''])"
proof -
  let ?s = "start True
          [(''/home/u/cltk_data/originals'', Dir [''phi5'']),
           (''/home/u/cltk_data/originals/phi5'', Dir [''stale.idt'']),
           (''/data/PHI5'', Dir [''new.idt''])]"
  let ?s' = "\<lparr>world = \<lparr>nodes =
                 [(''/home/u/cltk_data/originals/phi5'', Dir [''new.idt'']),
                  (''/home/u/cltk_data/originals'', Dir [''phi5'']),
                  (''/data/PHI5'', Dir [''new.idt''])], online = True\<rparr>,
              logged =
                [(INFO, ''Importing from local path: '' @ quoted ''/data/PHI5''),
                 (INFO, ''Removed directory at '' @ quoted ''/home/u/cltk_data/originals/phi5''
                        @ ''.''),
                 (INFO, ''Files copied from /data/PHI5 to /home/u/cltk_data/originals/phi5'')],
              calls =
                [IsDir ''/home/u/cltk_data/originals'', IsDir ''/home/u/cltk_data/originals/phi5'',
                 Rmtree ''/home/u/cltk_data/originals/phi5'',
                 IsDir ''/home/u/cltk_data/originals/phi5'',
                 Copytree ''/data/PHI5'' ''/home/u/cltk_data/originals/phi5'']\<rparr>"
  have staged: "isdir sim_env (world ?s) ''/home/u/cltk_data/originals''"
    by (simp add: sim_defs)
  have present: "isdir sim_env (world ?s) ''/home/u/cltk_data/originals/phi5''"
    by (simp add: sim_defs)
  have returns:
    "import_corpus sim_env sim_tables \<lparr>language = ''latin''\<rparr> ''phi5'' (Some ''/data/PHI5'') ?s
       = (Inr (), ?s')"
    unfolding sim_import_phi5 by (simp add: run_defs)
  show ?thesis
    using import_corpus_local_overwrites [where contents = "\<lambda>w p. map_of (nodes w) p",
        OF sim_latin_table sim_phi5 sim_local sim_legacy sim_originals_dir sim_dst sim_src
        staged present sim_rmtree_removes sim_copytree_copies returns]
      returns
    by (simp add: start_def)
qed

text \<open>
  Claim C9.  A legacy import that reaches the copy: the staging directory is there or
  \<open>makedirs\<close> makes it, the destination is not there or \<open>rmtree\<close> removes it, and
  \<open>copytree\<close> raises \<open>e\<close>.  If \<open>e\<close> is the \<open>OSError\<close> with \<open>errno\<close> \<open>ENOTDIR\<close>,
  which is what \<open>copytree\<close> raises for a source that is a single file, then
  \<open>shutil.copy\<close> is called with the same source and destination, and
  \<open>import_corpus\<close> returns if the copy does and raises what the copy raises otherwise.
  Any other \<open>e\<close>, an \<open>OSError\<close> with another \<open>errno\<close> included, escapes from
  \<open>import_corpus\<close> as it is, and \<open>shutil.copy\<close> is not called.  The last part is the
  same fact for \<open>_copy_dir_recursive\<close> alone, in any state of that world.
\<close>

theorem copy_falls_back_or_propagates:
  assumes tab: "map_of (LANGUAGE_CORPORA t) (language self) = Some corpora"
    and found: "find (\<lambda>x. name x = cn) corpora = Some d"
    and local: "location d = ''local''"
    and legacy: "cn \<in> {''phi5'', ''phi7'', ''tlg''}"
    and names: "originals_dir = make_cltk_path env [''originals'']"
      "dst = make_cltk_path env [''originals'', cn]"
    and src: "src = rstrip p os_pathsep"
    and staging: "if isdir env (world s) originals_dir then wa = world s
                  else makedirs env originals_dir (world s) = (None, wa)"
    and removal: "if isdir env wa dst then rmtree env dst wa = (None, wb) else wb = wa"
    and gone: "\<not> isdir env wb dst"
    and fails: "copytree env src dst wb = (Some e, wc)"
    and before: "before = calls s @ [IsDir originals_dir]
                  @ (if isdir env (world s) originals_dir then [] else [Makedirs originals_dir])
                  @ [IsDir dst] @ (if isdir env wa dst then [Rmtree dst] else [])
                  @ [IsDir dst]"
    and R: "R = import_corpus env t self cn (Some p) s"
  shows "(e = OSError (Some ENOTDIR) \<longrightarrow>
            fst R = (case fst (copy env src dst wc) of None \<Rightarrow> Inr () | Some e' \<Rightarrow> Inl e')
          \<and> world (snd R) = snd (copy env src dst wc)
          \<and> calls (snd R) = before @ [Copytree src dst, Copy src dst])
       \<and> (e \<noteq> OSError (Some ENOTDIR) \<longrightarrow>
            fst R = Inl e \<and> world (snd R) = wc \<and> calls (snd R) = before @ [Copytree src dst])
       \<and> (\<forall>s0. world s0 = wb \<longrightarrow>
            fst (copy_dir_recursive env src dst s0) =
              (if e = OSError (Some ENOTDIR)
               then (case fst (copy env src dst wc) of None \<Rightarrow> Inr () | Some e' \<Rightarrow> Inl e')
               else Inl e))"
proof -
  obtain lg where eq: "R = copy_dir_recursive env src dst (s\<lparr>world := wb, logged := lg, calls := before\<rparr>)"
    using legacy_reaches_copy [OF tab found local legacy names staging removal gone, of p]
    unfolding R src before by blast
  have fails': "copytree env src dst (world (s\<lparr>world := wb, logged := lg, calls := before\<rparr>)) = (Some e, wc)"
    using fails by simp
  have gen: "\<forall>s0. world s0 = wb \<longrightarrow>
            fst (copy_dir_recursive env src dst s0) =
              (if e = OSError (Some ENOTDIR)
               then (case fst (copy env src dst wc) of None \<Rightarrow> Inr () | Some e' \<Rightarrow> Inl e')
               else Inl e)"
  proof (intro allI impI)
    fix s0 :: "'a state"
    assume "world s0 = wb"
    then have "copytree env src dst (world s0) = (Some e, wc)"
      using fails by simp
    from copy_dir_recursive_result [OF this] show "fst (copy_dir_recursive env src dst s0) =
              (if e = OSError (Some ENOTDIR)
               then (case fst (copy env src dst wc) of None \<Rightarrow> Inr () | Some e' \<Rightarrow> Inl e')
               else Inl e)"
      by (auto split: prod.splits option.splits)
  qed
  show ?thesis
    unfolding eq copy_dir_recursive_result [OF fails'] using gen
    by (auto split: prod.splits option.splits)
qed

theorem copy_falls_back_or_propagates_witness:
  "fst (import_corpus sim_env sim_tables \<lparr>language = ''latin''\<rparr> ''phi5'' (Some ''/data/PHI5'')
          (start True [(''/data/PHI5'', File ''authtab'')])) = Inr ()
   \<and> calls (snd (import_corpus sim_env sim_tables \<lparr>language = ''latin''\<rparr> ''phi5''
                    (Some ''/data/PHI5'') (start True [(''/data/PHI5'', File ''authtab'')])))
       = [IsDir ''/home/u/cltk_data/originals'', Makedirs ''/home/u/cltk_data/originals'',
          IsDir ''/home/u/cltk_data/originals/phi5'', IsDir ''/home/u/cltk_data/originals/phi5'',
          Copytree ''/data/PHI5'' ''/home/u/cltk_data/originals/phi5'',
          Copy ''/data/PHI5'' ''/home/u/cltk_data/originals/phi5'']
   \<and> fst (import_corpus sim_env sim_tables \<lparr>language = ''latin''\<rparr> ''phi5'' (Some ''/data/PHI5'')
            (start True [])) = Inl (OSError (Some 2))
   \<and> calls (snd (import_corpus sim_env sim_tables \<lparr>language = ''latin''\<rparr> ''phi5''
                    (Some ''/data/PHI5'') (start True [])))
       = [IsDir ''/home/u/cltk_data/originals'', Makedirs ''/home/u/cltk_data/originals'',
          IsDir ''/home/u/cltk_data/originals/phi5'', IsDir ''/home/u/cltk_data/originals/phi5'',
          Copytree ''/data/PHI5'' ''/home/u/cltk_data/originals/phi5'']"
proof -
  let ?s = "start True [(''/data/PHI5'', File ''authtab'')]"
  let ?wa = "\<lparr>nodes = [(''/home/u/cltk_data/originals'', Dir []),
                         (''/data/PHI5'', File ''authtab'')], online = True\<rparr>"
  let ?t = "start True []"
  let ?wb = "\<lparr>nodes = [(''/home/u/cltk_data/originals'', Dir [])], online = True\<rparr>"
  have staging: "if isdir sim_env (world ?s) ''/home/u/cltk_data/originals'' then ?wa = world ?s
                 else makedirs sim_env ''/home/u/cltk_data/originals'' (world ?s) = (None, ?wa)"
    by (simp add: sim_defs)
  have removal: "if isdir sim_env ?wa ''/home/u/cltk_data/originals/phi5''
                 then rmtree sim_env ''/home/u/cltk_data/originals/phi5'' ?wa = (None, ?wa)
                 else ?wa = ?wa"
    by (simp add: sim_defs)
  have gone: "\<not> isdir sim_env ?wa ''/home/u/cltk_data/originals/phi5''"
    by (simp add: sim_defs)
  have fails: "copytree sim_env ''/data/PHI5'' ''/home/u/cltk_data/originals/phi5'' ?wa
                 = (Some (OSError (Some ENOTDIR)), ?wa)"
    by (simp add: sim_defs ENOTDIR_def)
  have staging': "if isdir sim_env (world ?t) ''/home/u/cltk_data/originals'' then ?wb = world ?t
                 else makedirs sim_env ''/home/u/cltk_data/originals'' (world ?t) = (None, ?wb)"
    by (simp add: sim_defs)
  have removal': "if isdir sim_env ?wb ''/home/u/cltk_data/originals/phi5''
                 then rmtree sim_env ''/home/u/cltk_data/originals/phi5'' ?wb = (None, ?wb)
                 else ?wb = ?wb"
    by (simp add: sim_defs)
  have gone': "\<not> isdir sim_env ?wb ''/home/u/cltk_data/originals/phi5''"
    by (simp add: sim_defs)
  have fails': "copytree sim_env ''/data/PHI5'' ''/home/u/cltk_data/originals/phi5'' ?wb
                 = (Some (OSError (Some 2)), ?wb)"
    by (simp add: sim_defs)
  show ?thesis
    using copy_falls_back_or_propagates [OF sim_latin_table sim_phi5 sim_local sim_legacy
        sim_originals_dir sim_dst sim_src staging removal gone fails refl refl]
      copy_falls_back_or_propagates [OF sim_latin_table sim_phi5 sim_local sim_legacy
        sim_originals_dir sim_dst sim_src staging' removal' gone' fails' refl refl]
    by (simp add: sim_defs ENOTDIR_def)
qed

lemma sim_greek_proper_names:
  "find (\<lambda>x. name x = ''greek_proper_names'') (GREEK_CORPORA sim_tables)
     = Some \<lparr>name = ''greek_proper_names'', location = ''local'', type = ''text''\<rparr>"
  by (simp add: sim_tables_def)

text \<open>
  Claim C5, as stated, fails for the legacy corpora.  After the line for the logger,
  \<open>import_corpus\<close> calls \<open>local_path.rstrip\<close> for the names \<open>phi5\<close>, \<open>phi7\<close> and
  \<open>tlg\<close>, and \<open>None\<close> has no such method: for the local corpus \<open>phi5\<close> of the latin
  table and no \<open>local_path\<close>, the call raises \<open>AttributeError\<close>.
\<close>

theorem import_corpus_legacy_without_path_counterexample:
  "find (\<lambda>x. name x = ''phi5'') (LATIN_CORPORA sim_tables)
     = Some \<lparr>name = ''phi5'', location = ''local'', type = ''text''\<rparr>
   \<and> import_corpus sim_env sim_tables \<lparr>language = ''latin''\<rparr> ''phi5'' None (start True [])
     = (Inl (AttributeError
              (quoted ''NoneType'' @ '' object has no attribute '' @ quoted ''rstrip'')),
        \<lparr>world = \<lparr>nodes = [], online = True\<rparr>,
         logged = [(INFO, ''Importing from local path: '' @ quoted ''None'')],
         calls = []\<rparr>)"
  unfolding sim_import_phi5 by (simp add: run_defs)

text \<open>
  Claim C5, amended.  For a local corpus whose name is none of \<open>phi5\<close>, \<open>phi7\<close> and
  \<open>tlg\<close>, \<open>import_corpus\<close> without a \<open>local_path\<close> returns; it logs the line that
  names the path, \<open>None\<close>, and does nothing else: the world is the same and no external
  operation is called.
\<close>

theorem import_corpus_local_without_path:
  assumes tab: "map_of (LANGUAGE_CORPORA t) (language self) = Some corpora"
    and found: "find (\<lambda>x. name x = cn) corpora = Some d"
    and local: "location d = ''local''"
    and other: "cn \<notin> {''phi5'', ''phi7'', ''tlg''}"
  shows "import_corpus env t self cn None s =
           (Inr (), s\<lparr>logged := logged s @ [(INFO, ''Importing from local path: '' @ quoted ''None'')]\<rparr>)"
  using other local
  unfolding import_corpus_def bind_Inr [OF get_corpus_properties_found [OF tab found]]
  by (simp add: Let_def bind_logger_info format_opt_def return_def)

theorem import_corpus_local_without_path_witness:
  "''greek_proper_names'' \<notin> {''phi5'', ''phi7'', ''tlg''}
   \<and> import_corpus sim_env sim_tables \<lparr>language = ''greek''\<rparr> ''greek_proper_names'' None
       (start True [])
     = (Inr (), \<lparr>world = \<lparr>nodes = [], online = True\<rparr>,
                 logged = [(INFO, ''Importing from local path: '' @ quoted ''None'')],
                 calls = []\<rparr>)"
proof -
  have other: "''greek_proper_names'' \<notin> {''phi5'', ''phi7'', ''tlg''}"
    by simp
  have local: "location \<lparr>name = ''greek_proper_names'', location = ''local'', type = ''text''\<rparr>
                 = ''local''"
    by simp
  show ?thesis
    using import_corpus_local_without_path [OF sim_greek_table sim_greek_proper_names local other,
        where env = sim_env and s = "start True []"] other
    by (simp add: start_def)
qed

text \<open>
  Claim C6.  The claim says that trailing directory separators of \<open>local_path\<close> are
  trimmed before the directory name is checked and the copy is made.  The statement
  that is to do so, under the comment that it normalizes the path for the check, strips
  \<open>os.pathsep\<close>, the colon that separates the entries of a search path, and not
  \<open>os.sep\<close>: a trailing colon is removed and a trailing slash stays.  With the slash
  the last component of the path is empty, so that for the directory \<open>/data/PHI5/\<close> the
  line that the directory must be named \<open>PHI5\<close> is logged and \<open>copytree\<close> receives
  the path with the slash, while for \<open>/data/PHI5\<close> the line is not logged.  (The table
  of the simulated world lists the directory under both spellings.)
\<close>

theorem trailing_separator_not_trimmed:
  "rstrip ''/data/PHI5:'' os_pathsep = ''/data/PHI5''
   \<and> rstrip ''/data/PHI5/'' os_pathsep = ''/data/PHI5/''
   \<and> rstrip ''/data/PHI5/'' os_sep = ''/data/PHI5''
   \<and> snd (os_path_split ''/data/PHI5/'') = []
   \<and> snd (import_corpus sim_env sim_tables \<lparr>language = ''latin''\<rparr> ''phi5'' (Some ''/data/PHI5/'')
        (start True [(''/data/PHI5'', Dir [''authtab.dir'']),
                     (''/data/PHI5/'', Dir [''authtab.dir''])]))
     = \<lparr>world = \<lparr>nodes = [(''/home/u/cltk_data/originals/phi5'', Dir [''authtab.dir'']),
                           (''/home/u/cltk_data/originals'', Dir []),
                           (''/data/PHI5'', Dir [''authtab.dir'']),
                           (''/data/PHI5/'', Dir [''authtab.dir''])], online = True\<rparr>,
        logged = [(INFO, ''Importing from local path: '' @ quoted ''/data/PHI5/''),
                  (INFO, ''Directory must be named '' @ quoted ''PHI5'' @ ''.''),
                  (INFO, ''Wrote directory at '' @ quoted ''/home/u/cltk_data/originals'' @ ''.''),
                  (INFO, ''Files copied from /data/PHI5/ to /home/u/cltk_data/originals/phi5'')],
        calls = [IsDir ''/home/u/cltk_data/originals'', Makedirs ''/home/u/cltk_data/originals'',
                 IsDir ''/home/u/cltk_data/originals/phi5'',
                 IsDir ''/home/u/cltk_data/originals/phi5'',
                 Copytree ''/data/PHI5/'' ''/home/u/cltk_data/originals/phi5'']\<rparr>
   \<and> snd (import_corpus sim_env sim_tables \<lparr>language = ''latin''\<rparr> ''phi5'' (Some ''/data/PHI5'')
        (start True [(''/data/PHI5'', Dir [''authtab.dir'']),
                     (''/data/PHI5/'', Dir [''authtab.dir''])]))
     = \<lparr>world = \<lparr>nodes = [(''/home/u/cltk_data/originals/phi5'', Dir [''authtab.dir'']),
                           (''/home/u/cltk_data/originals'', Dir []),
                           (''/data/PHI5'', Dir [''authtab.dir'']),
                           (''/data/PHI5/'', Dir [''authtab.dir''])], online = True\<rparr>,
        logged = [(INFO, ''Importing from local path: '' @ quoted ''/data/PHI5''),
                  (INFO, ''Wrote directory at '' @ quoted ''/home/u/cltk_data/originals'' @ ''.''),
                  (INFO, ''Files copied from /data/PHI5 to /home/u/cltk_data/originals/phi5'')],
        calls = [IsDir ''/home/u/cltk_data/originals'', Makedirs ''/home/u/cltk_data/originals'',
                 IsDir ''/home/u/cltk_data/originals/phi5'',
                 IsDir ''/home/u/cltk_data/originals/phi5'',
                 Copytree ''/data/PHI5'' ''/home/u/cltk_data/originals/phi5'']\<rparr>"
  unfolding sim_import_phi5 by (simp add: run_defs os_sep_def)

end
